theory Spec2Isabelle
  imports Complex_Main "HOL-Library.Char_ord" "HOL-Library.List_Lexorder"
    "HOL-Library.Product_Lexorder"
begin

section \<open>Text primitives\<close>

text \<open>
  Python strings are modelled as \<^typ>\<open>string\<close>, a character standing for the code
  point of its number: the model covers the texts whose code points are below 256. The
  functions below are the string operations the services use: \<^verbatim>\<open>str.lower\<close>, the
  substring test \<^verbatim>\<open>a in b\<close>, \<^verbatim>\<open>str.strip\<close>, \<^verbatim>\<open>str.split\<close> and
  \<^verbatim>\<open>str.replace\<close>.

  Among the code points below 256 the capitals are A to Z (65 to 90) and the thirty
  letters from 192 to 222 without the multiplication sign 215; the small letter of each
  is 32 further.
\<close>

definition lower_char :: "char \<Rightarrow> char" where
  "lower_char c =
     (let n = (of_char c :: nat)
      in if (65 \<le> n \<and> n \<le> 90) \<or> (192 \<le> n \<and> n \<le> 222 \<and> n \<noteq> 215)
         then char_of (n + 32) else c)"

definition lower :: "string \<Rightarrow> string" where
  "lower s = map lower_char s"

primrec startswith :: "string \<Rightarrow> string \<Rightarrow> bool" where
  "startswith [] p = (p = [])"
| "startswith (c # cs) p = (case p of [] \<Rightarrow> True | d # ds \<Rightarrow> c = d \<and> startswith cs ds)"

text \<open>\<open>str_in p s\<close> is Python's \<^verbatim>\<open>p in s\<close>: \<open>p\<close> occurs in \<open>s\<close> as a contiguous run.\<close>

primrec str_in :: "string \<Rightarrow> string \<Rightarrow> bool" where
  "str_in p [] = (p = [])"
| "str_in p (c # cs) = (startswith (c # cs) p \<or> str_in p cs)"


section \<open>Floating-point numbers\<close>

text \<open>
  A Python float is a binary64 number. A finite one is a rational \<open>m * 2 ^ e\<close> with a
  significand \<open>m\<close> of at most 53 bits and an exponent \<open>e\<close> of at least \<open>-1074\<close>; the
  model holds it as that rational. An arithmetic operation yields the exact result rounded
  to the nearest such number, a tie going to the even significand. \<open>round_double\<close> is
  that rounding; infinities and NaN are outside the model, and so is overflow, which the
  operations below cannot reach from finite operands (one operand is a small integer).
\<close>

function floor_log2 :: "int \<Rightarrow> int" where
  "floor_log2 n = (if n < 2 then 0 else 1 + floor_log2 (n div 2))"
  by pat_completeness auto
termination
  by (relation "measure nat") auto

declare floor_log2.simps [simp del]

definition pow2 :: "int \<Rightarrow> rat" where
  "pow2 e = (if 0 \<le> e then 2 ^ nat e else 1 / 2 ^ nat (- e))"

text \<open>For a positive rational \<open>q\<close>, the integer \<open>e\<close> with \<open>2 ^ e \<le> q < 2 ^ (e + 1)\<close>.\<close>

definition binary_exponent :: "rat \<Rightarrow> int" where
  "binary_exponent q =
     (let (a, b) = quotient_of q;
          e0 = floor_log2 a - floor_log2 b
      in if pow2 e0 \<le> q then e0 else e0 - 1)"

definition round_half_even :: "rat \<Rightarrow> int" where
  "round_half_even q =
     (let f = \<lfloor>q\<rfloor>; r = q - of_int f
      in if r < 1/2 then f
         else if 1/2 < r then f + 1
         else if even f then f else f + 1)"

definition round_double :: "rat \<Rightarrow> rat" where
  "round_double q =
     (if q = 0 then 0
      else (let e = max (binary_exponent \<bar>q\<bar> - 52) (- 1074);
                m = round_half_even (\<bar>q\<bar> / pow2 e)
            in sgn q * of_int m * pow2 e))"

text \<open>\<^verbatim>\<open>float(k)\<close> for an integer, \<^verbatim>\<open>a + b\<close> and \<^verbatim>\<open>a - b\<close> for floats.\<close>

definition float_of_int :: "int \<Rightarrow> rat" where
  "float_of_int k = round_double (of_int k)"

definition float_add :: "rat \<Rightarrow> rat \<Rightarrow> rat" where
  "float_add a b = round_double (a + b)"

definition float_sub :: "rat \<Rightarrow> rat \<Rightarrow> rat" where
  "float_sub a b = round_double (a - b)"


section \<open>Icon candidates and per-element icon selection\<close>

text \<open>
  An icon is a Python dict. \<^verbatim>\<open>_find_best_icon_for_text\<close> reads three keys, each of
  which may be absent (\<^verbatim>\<open>icon.get('keywords', [])\<close>, \<^verbatim>\<open>icon.get('category', '')\<close>,
  \<^verbatim>\<open>'similarity_score' in icon\<close>); the remaining keys (id, name, description,
  svg_path) are kept as an association list. The similarity score is a float. The score
  of a candidate is counted in integers and becomes a float when the similarity score is
  added to it; the comparisons of the loop compare the numbers exactly, as Python does
  for an integer and a float.
\<close>

record icon =
  icon_keywords :: "string list option"
  icon_category :: "string option"
  similarity_score :: "rat option"
  icon_other :: "(string \<times> string) list"

text \<open>A dict is truthy exactly when it has at least one key.\<close>

definition icon_truthy :: "icon \<Rightarrow> bool" where
  "icon_truthy ic =
     (icon_keywords ic \<noteq> None \<or> icon_category ic \<noteq> None \<or> similarity_score ic \<noteq> None
      \<or> icon_other ic \<noteq> [])"

text \<open>The body of the loop over \<^verbatim>\<open>available_icons\<close>: the score of one candidate.\<close>

definition icon_score :: "string \<Rightarrow> icon \<Rightarrow> rat" where
  "icon_score text_lower ic =
     (let kws = (case icon_keywords ic of None \<Rightarrow> [] | Some ks \<Rightarrow> ks);
          s0 = foldl (\<lambda>score keyword.
                        if str_in (lower keyword) text_lower then score + 2 else score)
                 (0::int) kws;
          cat = (case icon_category ic of None \<Rightarrow> [] | Some c \<Rightarrow> c);
          s1 = (if str_in (lower cat) text_lower then s0 + 1 else s0)
      in case similarity_score ic of
           None \<Rightarrow> of_int s1
         | Some v \<Rightarrow> float_add (float_of_int s1) v)"

text \<open>The loop itself, threading \<^verbatim>\<open>(best_icon, best_score)\<close>.\<close>

fun best_loop :: "string \<Rightarrow> icon list \<Rightarrow> icon option \<times> rat \<Rightarrow> icon option \<times> rat" where
  "best_loop text_lower [] st = st"
| "best_loop text_lower (ic # ics) (best_icon, best_score) =
     (let score = icon_score text_lower ic
      in if score > best_score then best_loop text_lower ics (Some ic, score)
         else best_loop text_lower ics (best_icon, best_score))"

text \<open>
  \<^verbatim>\<open>return best_icon or available_icons[0]\<close>: the first icon is returned when the loop
  kept no icon, and also when the icon it kept is an empty dict.
\<close>

definition find_best_icon_for_text :: "string \<Rightarrow> icon list \<Rightarrow> icon option" where
  "find_best_icon_for_text txt available_icons =
     (case available_icons of
        [] \<Rightarrow> None
      | first # _ \<Rightarrow>
          (case fst (best_loop (lower txt) available_icons (None, 0)) of
             None \<Rightarrow> Some first
           | Some b \<Rightarrow> if icon_truthy b then Some b else Some first))"


section \<open>Content, template coordinates and the layout mapper\<close>

record statistic =
  stat_label :: "string option"
  stat_value :: "string option"
  stat_percentage :: "int option"

text \<open>
  The content analysis is a dict whose keys the mapper reads with \<^verbatim>\<open>.get\<close> and a
  default, so each may be absent. Its \<^verbatim>\<open>icons\<close> entry (the names computed by
  \<^verbatim>\<open>get_content_icons\<close>) is read by none of the functions below and is left out.
\<close>

record content_analysis =
  mainTitle :: "string option"
  keyPoints :: "string list option"
  statistics :: "statistic list option"
  quotes :: "string list option"
  category :: "string option"
  summary :: "string option"
  wordCount :: "nat option"
  transcriptLength :: "nat option"

text \<open>
  A coordinate is a dict with the keys index, x, y, width, height and icon_size. The
  mapper reads the last with \<^verbatim>\<open>.get('icon_size', 'medium')\<close>: the key may be absent
  (\<open>None\<close>), and when present its value may itself be \<^verbatim>\<open>None\<close> (\<open>Some None\<close>), which
  is what a NULL column of the store gives.
\<close>

record coord =
  coord_index :: int
  coord_x :: int
  coord_y :: int
  coord_width :: int
  coord_height :: int
  coord_icon_size :: "string option option"

text \<open>
  The rows of the three tables of the template store, and the dict that
  \<^verbatim>\<open>get_template_coordinates\<close> builds from them.
\<close>

record template_row =
  t_id :: string
  t_name :: string
  t_category :: string
  t_description :: "string option"
  t_s3_path :: "string option"
  t_width :: int
  t_height :: int

record coordinate_row =
  c_template_id :: string
  element_type :: string
  element_index :: int
  x_coordinate :: int
  y_coordinate :: int
  c_width :: int
  c_height :: int
  icon_size :: "string option"

record color_scheme =
  scheme_name :: string
  primary_color :: string
  secondary_color :: string
  accent_color :: string
  background_color :: string
  text_color :: string
  is_default :: bool

record database =
  templates :: "template_row list"
  template_icon_coordinates :: "coordinate_row list"
  template_color_schemes :: "(string \<times> color_scheme) list"

record template_data =
  td_template :: template_row
  td_coordinates :: "string \<rightharpoonup> coord list"
  td_color_schemes :: "color_scheme list"

record position =
  pos_x :: int
  pos_y :: int
  pos_width :: int
  pos_height :: int

record positioned_text =
  pt_index :: nat
  pt_text :: string
  pt_position :: position
  pt_icon :: "icon option"
  pt_icon_size :: "string option"

record positioned_stat =
  ps_index :: nat
  ps_data :: statistic
  ps_position :: position
  ps_icon :: "icon option"
  ps_icon_size :: "string option"

record positioned_elements =
  pe_key_points :: "positioned_text list"
  pe_statistics :: "positioned_stat list"
  pe_quotes :: "positioned_text list"
  pe_title :: "positioned_text list"

definition coord_position :: "coord \<Rightarrow> position" where
  "coord_position c =
     \<lparr>pos_x = coord_x c, pos_y = coord_y c, pos_width = coord_width c,
      pos_height = coord_height c\<rparr>"

definition coord_size :: "coord \<Rightarrow> string option" where
  "coord_size c = (case coord_icon_size c of None \<Rightarrow> Some ''medium'' | Some v \<Rightarrow> v)"

text \<open>\<^verbatim>\<open>f"{stat.get('label', '')} {stat.get('value', '')}"\<close>\<close>

definition stat_text :: "statistic \<Rightarrow> string" where
  "stat_text stat =
     (case stat_label stat of None \<Rightarrow> [] | Some l \<Rightarrow> l) @ '' '' @
     (case stat_value stat of None \<Rightarrow> [] | Some v \<Rightarrow> v)"

text \<open>
  The three loops of \<^verbatim>\<open>_map_icons_to_positions\<close>, each over \<^verbatim>\<open>enumerate(...)\<close>:
  an element whose position \<open>i\<close> is below the number of coordinates of its kind is
  appended, any other element is skipped.
\<close>

fun map_key_points :: "icon list \<Rightarrow> coord list \<Rightarrow> (nat \<times> string) list \<Rightarrow> positioned_text list" where
  "map_key_points icons key_point_coords [] = []"
| "map_key_points icons key_point_coords ((i, point) # rest) =
     (if i < length key_point_coords then
        (let coord = key_point_coords ! i;
             best_icon = find_best_icon_for_text point icons
         in [\<lparr>pt_index = i, pt_text = point, pt_position = coord_position coord,
              pt_icon = best_icon, pt_icon_size = coord_size coord\<rparr>])
      else [])
     @ map_key_points icons key_point_coords rest"

fun map_statistics :: "icon list \<Rightarrow> coord list \<Rightarrow> (nat \<times> statistic) list \<Rightarrow> positioned_stat list" where
  "map_statistics icons stat_coords [] = []"
| "map_statistics icons stat_coords ((i, stat) # rest) =
     (if i < length stat_coords then
        (let coord = stat_coords ! i;
             best_icon = find_best_icon_for_text (stat_text stat) icons
         in [\<lparr>ps_index = i, ps_data = stat, ps_position = coord_position coord,
              ps_icon = best_icon, ps_icon_size = coord_size coord\<rparr>])
      else [])
     @ map_statistics icons stat_coords rest"

fun map_quotes :: "icon list \<Rightarrow> coord list \<Rightarrow> (nat \<times> string) list \<Rightarrow> positioned_text list" where
  "map_quotes icons quote_coords [] = []"
| "map_quotes icons quote_coords ((i, quote) # rest) =
     (if i < length quote_coords then
        (let coord = quote_coords ! i
         in [\<lparr>pt_index = i, pt_text = quote, pt_position = coord_position coord,
              pt_icon = find_best_icon_for_text ''quote'' icons,
              pt_icon_size = coord_size coord\<rparr>])
      else [])
     @ map_quotes icons quote_coords rest"

text \<open>
  \<open>coordinates\<close> is the dict from element kind to the list of coordinates of that
  kind; \<^verbatim>\<open>.get(kind, [])\<close> reads it.
\<close>

definition coords_of :: "(string \<rightharpoonup> coord list) \<Rightarrow> string \<Rightarrow> coord list" where
  "coords_of coordinates kind = (case coordinates kind of None \<Rightarrow> [] | Some cs \<Rightarrow> cs)"

definition list_or_empty :: "'a list option \<Rightarrow> 'a list" where
  "list_or_empty v = (case v of None \<Rightarrow> [] | Some xs \<Rightarrow> xs)"

definition map_icons_to_positions ::
    "content_analysis \<Rightarrow> template_data \<Rightarrow> icon list \<Rightarrow> positioned_elements" where
  "map_icons_to_positions content template_data icons =
     (let coordinates = td_coordinates template_data
      in \<lparr>pe_key_points =
            map_key_points icons (coords_of coordinates ''key_point'')
              (enumerate 0 (list_or_empty (keyPoints content))),
          pe_statistics =
            map_statistics icons (coords_of coordinates ''statistic'')
              (enumerate 0 (list_or_empty (statistics content))),
          pe_quotes =
            map_quotes icons (coords_of coordinates ''quote'')
              (enumerate 0 (list_or_empty (quotes content))),
          pe_title = []\<rparr>)"


section \<open>Template store: \<^verbatim>\<open>get_template_coordinates\<close>\<close>

text \<open>
  The store is reached through a database connection. \<open>None\<close> stands for a
  connection that cannot be opened: \<^verbatim>\<open>psycopg2.connect\<close> raises, the handler logs the
  error and the function returns the empty dict. The empty dict is modelled as \<open>None\<close>,
  a filled one as \<open>Some\<close>.

  The coordinate query is ordered by element type, then element index; the loop after
  it appends each row to the list of its element type.
\<close>

definition row_coord :: "coordinate_row \<Rightarrow> coord" where
  "row_coord r =
     \<lparr>coord_index = element_index r, coord_x = x_coordinate r, coord_y = y_coordinate r,
      coord_width = c_width r, coord_height = c_height r, coord_icon_size = Some (icon_size r)\<rparr>"

definition group_coordinates :: "coordinate_row list \<Rightarrow> (string \<rightharpoonup> coord list)" where
  "group_coordinates rows =
     foldl (\<lambda>result r.
              result(element_type r \<mapsto>
                (case result (element_type r) of None \<Rightarrow> [] | Some cs \<Rightarrow> cs) @ [row_coord r]))
       Map.empty rows"

definition get_template_coordinates :: "database option \<Rightarrow> string \<Rightarrow> template_data option" where
  "get_template_coordinates db template_id =
     (case db of
        None \<Rightarrow> None
      | Some d \<Rightarrow>
          (case find (\<lambda>t. t_id t = template_id) (templates d) of
             None \<Rightarrow> None
           | Some template \<Rightarrow>
               (let coordinates =
                      sort_key (\<lambda>r. (element_type r, element_index r))
                        (filter (\<lambda>r. c_template_id r = template_id)
                           (template_icon_coordinates d));
                    color_schemes =
                      map snd (filter (\<lambda>(tid, scheme). tid = template_id)
                                 (template_color_schemes d))
                in Some \<lparr>td_template = template,
                          td_coordinates = group_coordinates coordinates,
                          td_color_schemes = color_schemes\<rparr>)))"


section \<open>Icon ranker: \<^verbatim>\<open>find_relevant_icons\<close>\<close>

datatype error = IndexError | KeyError | ValueError | QueryFailed | OpenAIFailed | ParseFailed

text \<open>
  The similarity index is external. Its \<^verbatim>\<open>query\<close> call is a parameter of the model: a
  function of the query text, the number of results and the category filter that either
  raises or answers with the three parallel lists of lists the ranker reads. A service
  whose index could not be opened has no collection at all. The keywords of a metadata
  entry are what a loop over the entry yields: for an entry stored as one string, its
  one-character strings.
\<close>

record metadata =
  md_name :: "string option"
  md_category :: "string option"
  md_keywords :: "string list option"

record query_results =
  qr_ids :: "string list list"
  qr_metadatas :: "metadata list list option"
  qr_distances :: "rat list list option"

type_synonym collection = "string \<Rightarrow> int \<Rightarrow> string option \<Rightarrow> error + query_results"

definition digit_char :: "nat \<Rightarrow> char" where
  "digit_char d = ''0123456789'' ! d"

text \<open>\<^verbatim>\<open>str(n)\<close> for a natural number.\<close>

function str_nat :: "nat \<Rightarrow> string" where
  "str_nat n = (if n < 10 then [digit_char n] else str_nat (n div 10) @ [digit_char (n mod 10)])"
  by pat_completeness auto
termination
  by (relation "measure id") auto

declare str_nat.simps [simp del]

definition svg_placeholder :: string where
  "svg_placeholder = ''<circle cx=\"12\" cy=\"12\" r=\"10\" fill=\"currentColor\"/>''"

definition fallback_icon :: "nat \<Rightarrow> icon" where
  "fallback_icon i =
     \<lparr>icon_keywords = Some [''general'', ''icon''],
      icon_category = Some ''general'',
      similarity_score = Some (1/2),
      icon_other = [(''id'', ''fallback_'' @ str_nat i),
                    (''name'', ''Icon '' @ str_nat (i + 1)),
                    (''description'', ''Fallback icon '' @ str_nat (i + 1)),
                    (''svg_path'', svg_placeholder)]\<rparr>"

text \<open>\<^verbatim>\<open>for i in range(min(limit, 6))\<close>: the range is empty for a limit below one.\<close>

definition get_fallback_icons :: "int \<Rightarrow> icon list" where
  "get_fallback_icons limit = map fallback_icon [0..<nat (min limit 6)]"

text \<open>
  One round of the formatting loop. \<^verbatim>\<open>results['metadatas'][0][i]\<close> and
  \<^verbatim>\<open>results['distances'][0][i]\<close> are read only when the list is truthy, and raise
  when the row is shorter than the row of ids. The similarity score is the float
  \<^verbatim>\<open>1.0 - distance\<close>.
\<close>

definition row_item :: "'a list list option \<Rightarrow> nat \<Rightarrow> 'a \<Rightarrow> error + 'a" where
  "row_item rows i dflt =
     (case rows of
        None \<Rightarrow> Inr dflt
      | Some [] \<Rightarrow> Inr dflt
      | Some (row # _) \<Rightarrow> if i < length row then Inr (row ! i) else Inl IndexError)"

definition empty_metadata :: metadata where
  "empty_metadata = \<lparr>md_name = None, md_category = None, md_keywords = None\<rparr>"

definition format_icon :: "query_results \<Rightarrow> nat \<Rightarrow> error + icon" where
  "format_icon results i =
     (case row_item (qr_metadatas results) i empty_metadata of
        Inl e \<Rightarrow> Inl e
      | Inr metadata \<Rightarrow>
          (case row_item (qr_distances results) i 0 of
             Inl e \<Rightarrow> Inl e
           | Inr distance \<Rightarrow>
               (let icon_id = hd (qr_ids results) ! i
                in Inr \<lparr>icon_keywords =
                           Some (case md_keywords metadata of None \<Rightarrow> [] | Some ks \<Rightarrow> ks),
                         icon_category =
                           Some (case md_category metadata of None \<Rightarrow> ''general'' | Some c \<Rightarrow> c),
                         similarity_score = Some (float_sub 1 distance),
                         icon_other =
                           [(''id'', icon_id),
                            (''name'', case md_name metadata of None \<Rightarrow> icon_id | Some n \<Rightarrow> n),
                            (''description'',
                               ''Icon for '' @
                               (case md_name metadata of None \<Rightarrow> ''content'' | Some n \<Rightarrow> n)),
                            (''svg_path'', svg_placeholder)]\<rparr>)))"

fun format_results :: "query_results \<Rightarrow> nat list \<Rightarrow> icon list \<Rightarrow> error + icon list" where
  "format_results results [] icons = Inr icons"
| "format_results results (i # rest) icons =
     (case format_icon results i of
        Inl e \<Rightarrow> Inl e
      | Inr icon \<Rightarrow> format_results results rest (icons @ [icon]))"

text \<open>\<^verbatim>\<open>{"category": category} if category else None\<close>: an empty string is no filter.\<close>

definition where_filter :: "string option \<Rightarrow> string option" where
  "where_filter cat =
     (case cat of None \<Rightarrow> None | Some c \<Rightarrow> if c = [] then None else Some c)"

definition find_relevant_icons ::
    "collection option \<Rightarrow> string \<Rightarrow> string option \<Rightarrow> int \<Rightarrow> icon list" where
  "find_relevant_icons collection content cat limit =
     (case collection of
        None \<Rightarrow> []
      | Some query \<Rightarrow>
          (case query content limit (where_filter cat) of
             Inl e \<Rightarrow> get_fallback_icons limit
           | Inr results \<Rightarrow>
               (if qr_ids results \<noteq> [] then
                  (case format_results results [0..<length (hd (qr_ids results))] [] of
                     Inl e \<Rightarrow> get_fallback_icons limit
                   | Inr icons \<Rightarrow> icons)
                else [])))"

definition icon_id_of :: "icon \<Rightarrow> string option" where
  "icon_id_of ic = map_of (icon_other ic) ''id''"


section \<open>Generation: \<^verbatim>\<open>generate_infographic_data\<close>\<close>

text \<open>\<^verbatim>\<open>sep.join(xs)\<close>\<close>

fun join :: "string \<Rightarrow> string list \<Rightarrow> string" where
  "join sep [] = []"
| "join sep [x] = x"
| "join sep (x # y # ys) = x @ sep @ join sep (y # ys)"

record infographic_data =
  ig_template :: template_row
  ig_content :: content_analysis
  ig_positioned_elements :: positioned_elements
  ig_color_schemes :: "color_scheme list"
  ig_dimensions :: "int \<times> int"

text \<open>
  The empty dict that the function returns for a template it does not find (and from
  its exception handler) is \<open>None\<close>.
\<close>

definition generate_infographic_data ::
    "database option \<Rightarrow> collection option \<Rightarrow> content_analysis \<Rightarrow> string \<Rightarrow> infographic_data option" where
  "generate_infographic_data db collection content_analysis template_id =
     (case get_template_coordinates db template_id of
        None \<Rightarrow> None
      | Some template_data \<Rightarrow>
          (let content_text =
                 (case mainTitle content_analysis of None \<Rightarrow> [] | Some t \<Rightarrow> t) @ '' '' @
                 join '' '' (list_or_empty (keyPoints content_analysis));
               cat = (case category content_analysis of None \<Rightarrow> ''business'' | Some c \<Rightarrow> c);
               relevant_icons = find_relevant_icons collection content_text (Some cat) 10;
               positioned = map_icons_to_positions content_analysis template_data relevant_icons
           in Some \<lparr>ig_template = td_template template_data,
                     ig_content = content_analysis,
                     ig_positioned_elements = positioned,
                     ig_color_schemes = td_color_schemes template_data,
                     ig_dimensions = (t_width (td_template template_data),
                                      t_height (td_template template_data))\<rparr>))"


section \<open>Content analysis: \<^verbatim>\<open>analyze_basic_content\<close> and \<^verbatim>\<open>analyze_with_openai\<close>\<close>

text \<open>
  Whitespace as \<^verbatim>\<open>str.strip\<close>, \<^verbatim>\<open>str.split\<close> and the pattern \<^verbatim>\<open>\s\<close> see it:
  among the code points below 256, the controls 9 to 13 and 28 to 31, the space, the next
  line control 133 and the no-break space 160.
\<close>

definition is_space :: "char \<Rightarrow> bool" where
  "is_space c =
     (c \<in> set [CHR 0x09, CHR 0x0A, CHR 0x0B, CHR 0x0C, CHR 0x0D,
                CHR 0x1C, CHR 0x1D, CHR 0x1E, CHR 0x1F, CHR 0x20, CHR 0x85, CHR 0xA0])"

definition is_digit :: "char \<Rightarrow> bool" where
  "is_digit c = (c \<in> set ''0123456789'')"

definition strip :: "string \<Rightarrow> string" where
  "strip s = rev (dropWhile is_space (rev (dropWhile is_space s)))"

text \<open>\<^verbatim>\<open>s.split(d)\<close> for a one-character separator: never empty, one piece more than separators.\<close>

fun split_on :: "char \<Rightarrow> string \<Rightarrow> string list" where
  "split_on d [] = [[]]"
| "split_on d (c # cs) =
     (if c = d then [] # split_on d cs
      else (case split_on d cs of [] \<Rightarrow> [[c]] | w # ws \<Rightarrow> (c # w) # ws))"

text \<open>\<^verbatim>\<open>s.split()\<close>: the maximal runs of characters that are not whitespace.\<close>

fun split_ws :: "string \<Rightarrow> string list" where
  "split_ws [] = []"
| "split_ws [c] = (if is_space c then [] else [[c]])"
| "split_ws (c # d # cs) =
     (if is_space c then split_ws (d # cs)
      else if is_space d then [c] # split_ws (d # cs)
      else (case split_ws (d # cs) of [] \<Rightarrow> [[c]] | w # ws \<Rightarrow> (c # w) # ws))"

text \<open>
  The pattern \<^verbatim>\<open>(\d+)%|(\d+)\s*percent\<close>, matched without regard to case.
  \<open>percent_match_at\<close> is a match that starts at the head of the string: the longest run of
  digits, followed either by a percent sign or, after any whitespace, by the word. A shorter
  run of digits is followed by a digit, so backtracking finds nothing more.
  \<open>percent_search\<close> is \<^verbatim>\<open>re.search\<close>: the match at the leftmost position that has one;
  its value is the text of the group that matched.
\<close>

definition percent_match_at :: "string \<Rightarrow> string option" where
  "percent_match_at s =
     (let digits = takeWhile is_digit s; rest = dropWhile is_digit s
      in if digits = [] then None
         else if startswith rest ''%'' then Some digits
         else if startswith (lower (dropWhile is_space rest)) ''percent'' then Some digits
         else None)"

fun percent_search :: "string \<Rightarrow> string option" where
  "percent_search [] = None"
| "percent_search (c # cs) =
     (case percent_match_at (c # cs) of
        Some digits \<Rightarrow> Some digits
      | None \<Rightarrow> percent_search cs)"

text \<open>
  \<^verbatim>\<open>int(...)\<close> of a string of decimal digits. The interpreter refuses a string of more
  than 4300 digits with \<^verbatim>\<open>ValueError\<close> (the default limit on the conversion between
  integers and strings, as in Python 3.11 and the later releases of 3.8 to 3.10); nothing
  in \<^verbatim>\<open>analyze_basic_content\<close> catches it.
\<close>

definition digit_value :: "char \<Rightarrow> nat" where
  "digit_value c =
     (case map_of (zip ''0123456789'' [0, 1, 2, 3, 4, 5, 6, 7, 8, 9]) c of
        None \<Rightarrow> 0
      | Some v \<Rightarrow> v)"

definition digits_value :: "string \<Rightarrow> nat" where
  "digits_value ds = foldl (\<lambda>n c. 10 * n + digit_value c) 0 ds"

definition max_str_digits :: nat where
  "max_str_digits = 4300"

definition int_of_digits :: "string \<Rightarrow> error + nat" where
  "int_of_digits ds =
     (if length ds > max_str_digits then Inl ValueError else Inr (digits_value ds))"

definition key_indicators :: "string list" where
  "key_indicators =
     [''important'', ''key'', ''main'', ''first'', ''second'', ''third'', ''remember'',
      ''crucial'']"

definition sentence_statistic :: "string \<Rightarrow> nat \<Rightarrow> statistic" where
  "sentence_statistic sentence percentage =
     \<lparr>stat_label = Some (if length sentence > 40 then take 40 sentence @ ''...''
                           else sentence),
      stat_value = Some (str_nat percentage @ ''%''),
      stat_percentage = Some (min (int percentage) 100)\<rparr>"

text \<open>
  One round of the loop over \<^verbatim>\<open>sentences[:30]\<close>, on the three lists it appends to.
  The round raises when the conversion of the located digits does.
\<close>

definition process_sentence ::
    "string list \<times> statistic list \<times> string list \<Rightarrow> string \<Rightarrow>
     error + string list \<times> statistic list \<times> string list" where
  "process_sentence st raw =
     (case st of (key_points, stats, qs) \<Rightarrow>
        (let sentence = strip raw
         in if length sentence < 10 then Inr (key_points, stats, qs)
            else
              (case (case percent_search sentence of
                       None \<Rightarrow> Inr stats
                     | Some digits \<Rightarrow>
                         (case int_of_digits digits of
                            Inl e \<Rightarrow> Inl e
                          | Inr percentage \<Rightarrow>
                              Inr (stats @ [sentence_statistic sentence percentage]))) of
                 Inl e \<Rightarrow> Inl e
               | Inr stats' \<Rightarrow>
                   (let key_points' =
                          (if list_ex (\<lambda>indicator. str_in indicator (lower sentence))
                                key_indicators
                              \<and> length sentence \<le> 120
                           then key_points @ [sentence] else key_points);
                        qs' = (if CHR 0x22 \<in> set sentence
                               then qs @ [filter (\<lambda>c. c \<noteq> CHR 0x22) sentence] else qs)
                    in Inr (key_points', stats', qs')))))"

text \<open>The loop: an exception of a round ends it.\<close>

fun process_sentences ::
    "string list \<times> statistic list \<times> string list \<Rightarrow> string list \<Rightarrow>
     error + string list \<times> statistic list \<times> string list" where
  "process_sentences st [] = Inr st"
| "process_sentences st (raw # rest) =
     (case process_sentence st raw of
        Inl e \<Rightarrow> Inl e
      | Inr st' \<Rightarrow> process_sentences st' rest)"

text \<open>\<^verbatim>\<open>while len(key_points) < 5: key_points.append(...)\<close>\<close>

function pad_key_points :: "string list \<Rightarrow> string list" where
  "pad_key_points key_points =
     (if length key_points < 5
      then pad_key_points (key_points @ [''Key insight extracted from video content''])
      else key_points)"
  by pat_completeness auto
termination
  by (relation "measure (\<lambda>key_points. 5 - length key_points)") auto

declare pad_key_points.simps [simp del]

definition default_statistics :: "nat \<Rightarrow> string list \<Rightarrow> statistic list" where
  "default_statistics word_count key_points =
     [\<lparr>stat_label = Some ''Video Content Analysis'',
       stat_value = Some (str_nat word_count @ '' words''),
       stat_percentage = Some (min (int word_count div 20) 100)\<rparr>,
      \<lparr>stat_label = Some ''Key Points Identified'',
       stat_value = Some (str_nat (length key_points)),
       stat_percentage = Some (int (length key_points) * 15)\<rparr>]"

definition analyze_basic_content :: "string \<Rightarrow> error + content_analysis" where
  "analyze_basic_content transcript_text =
     (let sentences = split_on (CHR ''.'') transcript_text;
          word_count = length (split_ws transcript_text)
      in case process_sentences ([], [], []) (take 30 sentences) of
           Inl e \<Rightarrow> Inl e
         | Inr (key_points0, stats0, qs) \<Rightarrow>
             (let clean_sentences = filter (\<lambda>s. length s > 10) (map strip (take 5 sentences));
                  main_title = (case clean_sentences of
                                  [] \<Rightarrow> ''Video Content Summary''
                                | s # _ \<Rightarrow> take 80 s);
                  key_points1 =
                    (if key_points0 = []
                     then take 6 (filter (\<lambda>s. length s > 15 \<and> length s \<le> 120)
                                    (map strip (take 7 (drop 1 sentences))))
                     else key_points0);
                  key_points2 = pad_key_points key_points1;
                  key_points = (if length key_points2 > 6 then take 6 key_points2
                                else key_points2);
                  stats = (if stats0 = [] then default_statistics word_count key_points
                           else stats0)
              in Inr \<lparr>mainTitle = Some main_title,
                      keyPoints = Some key_points,
                      statistics = Some (take 4 stats),
                      quotes = Some (take 2 qs),
                      category = Some ''business'',
                      summary = Some (''Analysis of video content covering ''
                                      @ str_nat (length key_points) @ '' main topics''),
                      wordCount = Some word_count,
                      transcriptLength = Some (length transcript_text)\<rparr>))"

text \<open>
  The language-model path. The request to the model and the parsing of its answer as JSON
  are external: \<open>ask\<close> takes the prompt's transcript and either fails (the call raises, or
  the answer is not JSON) or yields the parsed dict, whose keys may each be absent. What
  follows the parse is the code of lines 271 to 286: metadata is added, the key points are
  padded to five and cut to six, and everything else is returned as the model gave it.
  \<^verbatim>\<open>result["keyPoints"]\<close> raises for a dict without that key.
\<close>

function pad_openai_points :: "string list \<Rightarrow> string list" where
  "pad_openai_points key_points =
     (if length key_points < 5
      then pad_openai_points (key_points @ [''Additional insight from the video content''])
      else key_points)"
  by pat_completeness auto
termination
  by (relation "measure (\<lambda>key_points. 5 - length key_points)") auto

declare pad_openai_points.simps [simp del]

definition analyze_with_openai ::
    "(string \<Rightarrow> error + content_analysis) \<Rightarrow> string \<Rightarrow> error + content_analysis" where
  "analyze_with_openai ask transcript_text0 =
     (let max_chars = 12000;
          transcript_text = (if length transcript_text0 > max_chars
                             then take max_chars transcript_text0 @ ''...''
                             else transcript_text0)
      in case ask transcript_text of
           Inl e \<Rightarrow> Inl e
         | Inr result \<Rightarrow>
             (case keyPoints result of
                None \<Rightarrow> Inl KeyError
              | Some key_points \<Rightarrow>
                  Inr (result
                    \<lparr>wordCount := Some (length (split_ws transcript_text)),
                     transcriptLength := Some (length transcript_text),
                     keyPoints :=
                       Some (if length key_points < 5 then pad_openai_points key_points
                             else if length key_points > 6 then take 6 key_points
                             else key_points)\<rparr>)))"

text \<open>
  \<^verbatim>\<open>analyze_transcript_content\<close>: the language model when a client is configured, the
  basic analysis when there is none or when the model path raised. The basic analysis is
  called outside the handler, so what it raises is raised to the caller.
\<close>

definition analyze_transcript_content ::
    "(string \<Rightarrow> error + content_analysis) option \<Rightarrow> string \<Rightarrow> error + content_analysis" where
  "analyze_transcript_content openai_client transcript_text =
     (case openai_client of
        None \<Rightarrow> analyze_basic_content transcript_text
      | Some ask \<Rightarrow>
          (case analyze_with_openai ask transcript_text of
             Inr result \<Rightarrow> Inr result
           | Inl e \<Rightarrow> analyze_basic_content transcript_text))"


section \<open>The scoring rule in the specification's words, and example inputs\<close>

text \<open>
  The score of a candidate against an element's text, as the specification words it: two
  for each keyword of the candidate found in the text, one if the candidate's category is
  found in the text, plus the candidate's similarity score; all matching without regard
  to case, and the sum with the similarity score being the float that the addition gives.
\<close>

definition spec_score :: "string \<Rightarrow> icon \<Rightarrow> rat" where
  "spec_score element_text ic =
     (let matches =
            2 * int (length (filter (\<lambda>keyword. str_in (lower keyword) (lower element_text))
                               (case icon_keywords ic of None \<Rightarrow> [] | Some ks \<Rightarrow> ks)))
            + (if str_in (lower (case icon_category ic of None \<Rightarrow> [] | Some c \<Rightarrow> c))
                    (lower element_text)
               then 1 else 0)
      in case similarity_score ic of
           None \<Rightarrow> of_int matches
         | Some v \<Rightarrow> float_add (float_of_int matches) v)"


definition rounding_pool :: "icon list" where
  "rounding_pool =
     [\<lparr>icon_keywords = Some [''growth''], icon_category = Some ''zzz'',
        similarity_score = Some 0, icon_other = [(''id'', ''first'')]\<rparr>,
      \<lparr>icon_keywords = Some [''growth''], icon_category = Some ''zzz'',
        similarity_score = Some (1 / 2 ^ 60), icon_other = [(''id'', ''second'')]\<rparr>]"

text \<open>A pool none of whose candidates matches the text \<open>hello world\<close>, a content analysis and a template.\<close>

definition unmatched_pool :: "icon list" where
  "unmatched_pool =
     [\<lparr>icon_keywords = Some [''growth''], icon_category = Some ''business'',
        similarity_score = Some 0, icon_other = [(''id'', ''sample_0'')]\<rparr>,
      \<lparr>icon_keywords = Some [''ai''], icon_category = Some ''technology'',
        similarity_score = Some 0, icon_other = [(''id'', ''sample_1'')]\<rparr>]"

definition sample_content :: content_analysis where
  "sample_content =
     \<lparr>mainTitle = Some ''Title'',
      keyPoints = Some [''A'', ''B'', ''C'', ''D'', ''E''],
      statistics = Some [\<lparr>stat_label = Some ''Growth'', stat_value = Some ''85%'',
                           stat_percentage = Some 85\<rparr>],
      quotes = Some [''Stay hungry''],
      category = Some ''business'', summary = None, wordCount = None,
      transcriptLength = None\<rparr>"

definition slot :: "int \<Rightarrow> int \<Rightarrow> int \<Rightarrow> coord" where
  "slot i x y = \<lparr>coord_index = i, coord_x = x, coord_y = y, coord_width = 32,
                 coord_height = 32, coord_icon_size = Some (Some ''medium'')\<rparr>"

definition sample_template :: template_data where
  "sample_template =
     \<lparr>td_template = \<lparr>t_id = ''modern-business'', t_name = ''Modern Business'',
                      t_category = ''business'', t_description = None, t_s3_path = None,
                      t_width = 1200, t_height = 1800\<rparr>,
      td_coordinates =
        [''key_point'' \<mapsto> [slot 0 100 400, slot 1 100 520, slot 2 100 640],
         ''statistic'' \<mapsto> [slot 0 200 1100, slot 1 600 1100]],
      td_color_schemes = []\<rparr>"


text \<open>
  Indexes for the ranker: one whose query raises, one that answers with no ids, two
  that answer with the same two icons at the same distance, in opposite orders, one that
  answers with ids only, and one whose row of distances is shorter than its row of ids.
\<close>

definition failing_index :: collection where
  "failing_index = (\<lambda>content limit flt. Inl QueryFailed)"

definition empty_index :: collection where
  "empty_index =
     (\<lambda>content limit flt. Inr \<lparr>qr_ids = [], qr_metadatas = None, qr_distances = None\<rparr>)"

definition tie_metadata :: "string \<Rightarrow> metadata" where
  "tie_metadata n =
     \<lparr>md_name = Some n, md_category = Some ''business'', md_keywords = Some [''growth'']\<rparr>"

definition tie_index_ba :: collection where
  "tie_index_ba =
     (\<lambda>content limit flt.
        Inr \<lparr>qr_ids = [[''b'', ''a'']],
             qr_metadatas = Some [[tie_metadata ''B'', tie_metadata ''A'']],
             qr_distances = Some [[1/2, 1/2]]\<rparr>)"

definition tie_index_ab :: collection where
  "tie_index_ab =
     (\<lambda>content limit flt.
        Inr \<lparr>qr_ids = [[''a'', ''b'']],
             qr_metadatas = Some [[tie_metadata ''A'', tie_metadata ''B'']],
             qr_distances = Some [[1/2, 1/2]]\<rparr>)"

definition bare_index :: collection where
  "bare_index =
     (\<lambda>content limit flt.
        Inr \<lparr>qr_ids = [[''b'', ''a'']], qr_metadatas = None, qr_distances = None\<rparr>)"

definition short_row_index :: collection where
  "short_row_index =
     (\<lambda>content limit flt.
        Inr \<lparr>qr_ids = [[''b'', ''a'']],
             qr_metadatas = Some [[tie_metadata ''B'', tie_metadata ''A'']],
             qr_distances = Some [[1/2]]\<rparr>)"

text \<open>
  What the formatting loop reads of a list of rows for \<open>n\<close> ids: nothing raises when the
  list is falsy or its first row has \<open>n\<close> entries or more, and the values read are the
  default for a falsy list and the first \<open>n\<close> entries of the first row otherwise.
\<close>

definition row_covers :: "'a list list option \<Rightarrow> nat \<Rightarrow> bool" where
  "row_covers rows n =
     (case rows of None \<Rightarrow> True | Some [] \<Rightarrow> True | Some (row # _) \<Rightarrow> n \<le> length row)"

definition row_values :: "'a list list option \<Rightarrow> nat \<Rightarrow> 'a \<Rightarrow> 'a list" where
  "row_values rows n dflt =
     (case rows of
        None \<Rightarrow> replicate n dflt
      | Some [] \<Rightarrow> replicate n dflt
      | Some (row # _) \<Rightarrow> take n row)"

text \<open>The icon the ranker shapes from an id, its metadata and its distance.\<close>

definition shaped_icon :: "string \<Rightarrow> metadata \<Rightarrow> rat \<Rightarrow> icon" where
  "shaped_icon icon_id metadata distance =
     \<lparr>icon_keywords = Some (case md_keywords metadata of None \<Rightarrow> [] | Some ks \<Rightarrow> ks),
      icon_category = Some (case md_category metadata of None \<Rightarrow> ''general'' | Some c \<Rightarrow> c),
      similarity_score = Some (float_sub 1 distance),
      icon_other =
        [(''id'', icon_id),
         (''name'', case md_name metadata of None \<Rightarrow> icon_id | Some n \<Rightarrow> n),
         (''description'',
            ''Icon for '' @ (case md_name metadata of None \<Rightarrow> ''content'' | Some n \<Rightarrow> n)),
         (''svg_path'', svg_placeholder)]\<rparr>"

text \<open>A template store with one template.\<close>

definition sample_database :: database where
  "sample_database =
     \<lparr>templates =
        [\<lparr>t_id = ''modern-business'', t_name = ''Modern Business'', t_category = ''business'',
          t_description = Some ''Clean corporate design with professional layout'',
          t_s3_path = None, t_width = 1200, t_height = 1800\<rparr>],
      template_icon_coordinates =
        [\<lparr>c_template_id = ''modern-business'', element_type = ''key_point'', element_index = 0,
          x_coordinate = 100, y_coordinate = 400, c_width = 32, c_height = 32,
          icon_size = Some ''medium''\<rparr>],
      template_color_schemes = []\<rparr>"

text \<open>The fixed vocabulary of categories that the specification names.\<close>

definition vocabulary :: "string list" where
  "vocabulary = [''business'', ''education'', ''technology'', ''health'', ''finance'', ''lifestyle'']"

text \<open>
  A language model that answers every transcript with a draft of two key points, five
  statistics, three quotes and the category \<open>sports\<close>, and the analysis that
  \<open>analyze_with_openai\<close> makes of it for a transcript of two words.
\<close>

definition goal_statistic :: statistic where
  "goal_statistic =
     \<lparr>stat_label = Some ''Goals'', stat_value = Some ''3'', stat_percentage = Some 60\<rparr>"

definition sports_draft :: content_analysis where
  "sports_draft =
     \<lparr>mainTitle = Some ''Match report'',
      keyPoints = Some [''The home side won'', ''The keeper saved a penalty''],
      statistics = Some [goal_statistic, goal_statistic, goal_statistic, goal_statistic,
                         goal_statistic],
      quotes = Some [''We never gave up'', ''What a night'', ''See you next week''],
      category = Some ''sports'',
      summary = Some ''A match'',
      wordCount = None,
      transcriptLength = None\<rparr>"

definition sports_model :: "string \<Rightarrow> error + content_analysis" where
  "sports_model = (\<lambda>transcript. Inr sports_draft)"

definition sports_result :: content_analysis where
  "sports_result =
     \<lparr>mainTitle = Some ''Match report'',
      keyPoints = Some [''The home side won'', ''The keeper saved a penalty'',
                        ''Additional insight from the video content'',
                        ''Additional insight from the video content'',
                        ''Additional insight from the video content''],
      statistics = Some [goal_statistic, goal_statistic, goal_statistic, goal_statistic,
                         goal_statistic],
      quotes = Some [''We never gave up'', ''What a night'', ''See you next week''],
      category = Some ''sports'',
      summary = Some ''A match'',
      wordCount = Some 2,
      transcriptLength = Some 15\<rparr>"

text \<open>
  The percentages that the basic analysis locates: the sentences its loop examines (the
  first thirty, stripped, of ten characters or more), the digits of the leftmost
  percentage match of each sentence that has one, their numbers, and the statistics built
  from them.
\<close>

definition examined_sentences :: "string \<Rightarrow> string list" where
  "examined_sentences transcript_text =
     filter (\<lambda>s. \<not> length s < 10) (map strip (take 30 (split_on (CHR ''.'') transcript_text)))"

definition located_digits :: "string \<Rightarrow> string list" where
  "located_digits transcript_text =
     List.map_filter percent_search (examined_sentences transcript_text)"

definition located_percentages :: "string \<Rightarrow> nat list" where
  "located_percentages transcript_text = map digits_value (located_digits transcript_text)"

definition located_statistics :: "string list \<Rightarrow> statistic list" where
  "located_statistics sentences =
     List.map_filter
       (\<lambda>s. map_option (\<lambda>digits. sentence_statistic s (digits_value digits))
              (percent_search s))
       sentences"

text \<open>A text whose only sentence holds a percentage of 4301 digits.\<close>

definition long_percentage_text :: string where
  "long_percentage_text = ''Growth of '' @ replicate 4301 (CHR ''9'') @ ''% seen''"


section \<open>Properties of the icon selection loop\<close>

lemma best_loop_keep:
  "list_all (\<lambda>c. icon_score t c \<le> s) ics \<Longrightarrow> best_loop t ics (b, s) = (b, s)"
  by (induction ics) auto

lemma best_loop_first_max:
  "list_ex (\<lambda>c. s < icon_score t c) ics \<Longrightarrow>
   \<exists>i<length ics. best_loop t ics (b, s) = (Some (ics ! i), icon_score t (ics ! i))
      \<and> s < icon_score t (ics ! i)
      \<and> (\<forall>j<length ics. icon_score t (ics ! j) \<le> icon_score t (ics ! i))
      \<and> (\<forall>j<i. icon_score t (ics ! j) < icon_score t (ics ! i))"
proof (induction ics arbitrary: b s)
  case Nil
  then show ?case by simp
next
  case (Cons ic ics)
  let ?v = "icon_score t ic"
  show ?case
  proof (cases "s < ?v")
    case True
    show ?thesis
    proof (cases "list_ex (\<lambda>c. ?v < icon_score t c) ics")
      case False
      then have "list_all (\<lambda>c. icon_score t c \<le> ?v) ics"
        by (simp add: list_all_iff list_ex_iff not_less)
      then have keep: "best_loop t ics (Some ic, ?v) = (Some ic, ?v)"
        by (rule best_loop_keep)
      have le: "\<forall>j<length (ic # ics). icon_score t ((ic # ics) ! j) \<le> ?v"
        using \<open>list_all (\<lambda>c. icon_score t c \<le> ?v) ics\<close>
        by (auto simp: list_all_iff nth_Cons' )
      show ?thesis
        by (rule exI [of _ 0]) (use True keep le in simp)
    next
      case ex: True
      from Cons.IH [OF ex, of "Some ic"] obtain i where i:
        "i < length ics"
        "best_loop t ics (Some ic, ?v) = (Some (ics ! i), icon_score t (ics ! i))"
        "?v < icon_score t (ics ! i)"
        "\<forall>j<length ics. icon_score t (ics ! j) \<le> icon_score t (ics ! i)"
        "\<forall>j<i. icon_score t (ics ! j) < icon_score t (ics ! i)"
        by blast
      show ?thesis
        by (rule exI [of _ "Suc i"]) (use True i in \<open>auto simp: nth_Cons' less_Suc_eq_0_disj\<close>)
    qed
  next
    case False
    then have ex: "list_ex (\<lambda>c. s < icon_score t c) ics"
      using Cons.prems by simp
    from Cons.IH [OF ex, of b] obtain i where i:
      "i < length ics"
      "best_loop t ics (b, s) = (Some (ics ! i), icon_score t (ics ! i))"
      "s < icon_score t (ics ! i)"
      "\<forall>j<length ics. icon_score t (ics ! j) \<le> icon_score t (ics ! i)"
      "\<forall>j<i. icon_score t (ics ! j) < icon_score t (ics ! i)"
      by blast
    show ?thesis
      by (rule exI [of _ "Suc i"]) (use False i in \<open>auto simp: nth_Cons' less_Suc_eq_0_disj\<close>)
  qed
qed

lemma find_best_no_positive:
  "available_icons \<noteq> [] \<Longrightarrow>
   \<not> list_ex (\<lambda>c. 0 < icon_score (lower txt) c) available_icons \<Longrightarrow>
   find_best_icon_for_text txt available_icons = Some (hd available_icons)"
proof -
  assume ne: "available_icons \<noteq> []"
    and no: "\<not> list_ex (\<lambda>c. 0 < icon_score (lower txt) c) available_icons"
  from no have "list_all (\<lambda>c. icon_score (lower txt) c \<le> 0) available_icons"
    by (simp add: list_all_iff list_ex_iff not_less)
  then have "best_loop (lower txt) available_icons (None, 0) = (None, 0)"
    by (rule best_loop_keep)
  with ne show ?thesis
    by (cases available_icons) (simp_all add: find_best_icon_for_text_def)
qed

lemma find_best_member:
  "available_icons \<noteq> [] \<Longrightarrow>
   \<exists>ic. find_best_icon_for_text txt available_icons = Some ic \<and> ic \<in> set available_icons"
proof (cases "list_ex (\<lambda>c. 0 < icon_score (lower txt) c) available_icons")
  case False
  assume "available_icons \<noteq> []"
  with False show ?thesis
    by (simp add: find_best_no_positive)
next
  case True
  assume ne: "available_icons \<noteq> []"
  from best_loop_first_max [OF True, of None] obtain i where
    "i < length available_icons"
    "best_loop (lower txt) available_icons (None, 0) =
       (Some (available_icons ! i), icon_score (lower txt) (available_icons ! i))"
    by blast
  then have "fst (best_loop (lower txt) available_icons (None, 0)) = Some (available_icons ! i)"
    and "available_icons ! i \<in> set available_icons"
    by simp_all
  with ne show ?thesis
    by (cases available_icons) (auto simp: find_best_icon_for_text_def simp del: best_loop.simps)
qed


lemma map_key_points_enumerate:
  "map_key_points icons cs (enumerate n xs) =
     map (\<lambda>(i, point).
       \<lparr>pt_index = i, pt_text = point, pt_position = coord_position (cs ! i),
        pt_icon = find_best_icon_for_text point icons, pt_icon_size = coord_size (cs ! i)\<rparr>)
      (enumerate n (take (length cs - n) xs))"
proof (induction xs arbitrary: n)
  case Nil
  show ?case by simp
next
  case (Cons x xs)
  show ?case
  proof (cases "n < length cs")
    case True
    then have "length cs - n = Suc (length cs - Suc n)" by simp
    with True Cons.IH [of "Suc n"] show ?thesis by (simp add: Let_def)
  next
    case False
    with Cons.IH [of "Suc n"] show ?thesis by simp
  qed
qed

lemma map_statistics_enumerate:
  "map_statistics icons cs (enumerate n xs) =
     map (\<lambda>(i, stat).
       \<lparr>ps_index = i, ps_data = stat, ps_position = coord_position (cs ! i),
        ps_icon = find_best_icon_for_text (stat_text stat) icons,
        ps_icon_size = coord_size (cs ! i)\<rparr>)
      (enumerate n (take (length cs - n) xs))"
proof (induction xs arbitrary: n)
  case Nil
  show ?case by simp
next
  case (Cons x xs)
  show ?case
  proof (cases "n < length cs")
    case True
    then have "length cs - n = Suc (length cs - Suc n)" by simp
    with True Cons.IH [of "Suc n"] show ?thesis by (simp add: Let_def)
  next
    case False
    with Cons.IH [of "Suc n"] show ?thesis by simp
  qed
qed

lemma map_quotes_enumerate:
  "map_quotes icons cs (enumerate n xs) =
     map (\<lambda>(i, quote).
       \<lparr>pt_index = i, pt_text = quote, pt_position = coord_position (cs ! i),
        pt_icon = find_best_icon_for_text ''quote'' icons,
        pt_icon_size = coord_size (cs ! i)\<rparr>)
      (enumerate n (take (length cs - n) xs))"
proof (induction xs arbitrary: n)
  case Nil
  show ?case by simp
next
  case (Cons x xs)
  show ?case
  proof (cases "n < length cs")
    case True
    then have "length cs - n = Suc (length cs - Suc n)" by simp
    with True Cons.IH [of "Suc n"] show ?thesis by (simp add: Let_def)
  next
    case False
    with Cons.IH [of "Suc n"] show ?thesis by simp
  qed
qed

lemma key_points_length:
  "length (map_key_points icons cs (enumerate 0 xs)) = min (length xs) (length cs)"
  by (simp add: map_key_points_enumerate min.commute)

lemma key_points_nth:
  "i < length xs \<Longrightarrow> i < length cs \<Longrightarrow>
   map_key_points icons cs (enumerate 0 xs) ! i =
     \<lparr>pt_index = i, pt_text = xs ! i, pt_position = coord_position (cs ! i),
      pt_icon = find_best_icon_for_text (xs ! i) icons, pt_icon_size = coord_size (cs ! i)\<rparr>"
  by (simp add: map_key_points_enumerate nth_enumerate_eq)

lemma statistics_length:
  "length (map_statistics icons cs (enumerate 0 xs)) = min (length xs) (length cs)"
  by (simp add: map_statistics_enumerate min.commute)

lemma statistics_nth:
  "i < length xs \<Longrightarrow> i < length cs \<Longrightarrow>
   map_statistics icons cs (enumerate 0 xs) ! i =
     \<lparr>ps_index = i, ps_data = xs ! i, ps_position = coord_position (cs ! i),
      ps_icon = find_best_icon_for_text (stat_text (xs ! i)) icons,
      ps_icon_size = coord_size (cs ! i)\<rparr>"
  by (simp add: map_statistics_enumerate nth_enumerate_eq)

lemma quotes_length:
  "length (map_quotes icons cs (enumerate 0 xs)) = min (length xs) (length cs)"
  by (simp add: map_quotes_enumerate min.commute)

lemma quotes_nth:
  "i < length xs \<Longrightarrow> i < length cs \<Longrightarrow>
   map_quotes icons cs (enumerate 0 xs) ! i =
     \<lparr>pt_index = i, pt_text = xs ! i, pt_position = coord_position (cs ! i),
      pt_icon = find_best_icon_for_text ''quote'' icons, pt_icon_size = coord_size (cs ! i)\<rparr>"
  by (simp add: map_quotes_enumerate nth_enumerate_eq)

lemmas mapped_simps =
  key_points_length key_points_nth statistics_length statistics_nth quotes_length quotes_nth

lemma mapper_key_points:
  "pe_key_points (map_icons_to_positions content template_data icons) =
     map_key_points icons (coords_of (td_coordinates template_data) ''key_point'')
       (enumerate 0 (list_or_empty (keyPoints content)))"
  by (simp add: map_icons_to_positions_def Let_def)

lemma mapper_statistics:
  "pe_statistics (map_icons_to_positions content template_data icons) =
     map_statistics icons (coords_of (td_coordinates template_data) ''statistic'')
       (enumerate 0 (list_or_empty (statistics content)))"
  by (simp add: map_icons_to_positions_def Let_def)

lemma mapper_quotes:
  "pe_quotes (map_icons_to_positions content template_data icons) =
     map_quotes icons (coords_of (td_coordinates template_data) ''quote'')
       (enumerate 0 (list_or_empty (quotes content)))"
  by (simp add: map_icons_to_positions_def Let_def)

lemmas mapper_fields = mapper_key_points mapper_statistics mapper_quotes









section \<open>Layout mapper\<close>

text \<open>
  C1. The mapper never reorders. For each kind (key point, statistic, quote) the output
  lists the first \<open>min (number of elements) (number of coordinates)\<close> elements of the
  content in content order: the texts (for a statistic, the record) are a prefix of the
  content's list, the \<open>k\<close>-th output carries index \<open>k\<close> and the geometry of the \<open>k\<close>-th
  coordinate of its kind, and the elements beyond the coordinates are dropped.
\<close>

theorem C1_mapper_preserves_order_and_truncates:
  "(let out = map_icons_to_positions content template_data icons;
        kps = list_or_empty (keyPoints content);
        sts = list_or_empty (statistics content);
        qts = list_or_empty (quotes content);
        kcs = coords_of (td_coordinates template_data) ''key_point'';
        scs = coords_of (td_coordinates template_data) ''statistic'';
        qcs = coords_of (td_coordinates template_data) ''quote''
    in map pt_text (pe_key_points out) = take (length kcs) kps
     \<and> map pt_index (pe_key_points out) = [0..<min (length kps) (length kcs)]
     \<and> map pt_position (pe_key_points out) = map coord_position (take (length kps) kcs)
     \<and> length (pe_key_points out) = min (length kps) (length kcs)
     \<and> map ps_data (pe_statistics out) = take (length scs) sts
     \<and> map ps_index (pe_statistics out) = [0..<min (length sts) (length scs)]
     \<and> map ps_position (pe_statistics out) = map coord_position (take (length sts) scs)
     \<and> length (pe_statistics out) = min (length sts) (length scs)
     \<and> map pt_text (pe_quotes out) = take (length qcs) qts
     \<and> map pt_index (pe_quotes out) = [0..<min (length qts) (length qcs)]
     \<and> map pt_position (pe_quotes out) = map coord_position (take (length qts) qcs)
     \<and> length (pe_quotes out) = min (length qts) (length qcs))"
  unfolding Let_def mapper_fields
  by (intro conjI; (rule nth_equalityI)?; simp add: mapped_simps min.commute)

text \<open>The specification's scenario: five key points on three slots give the first three.\<close>

lemma scenario_three_slots_five_points:
  "map pt_text (pe_key_points (map_icons_to_positions sample_content sample_template icons))
     = [''A'', ''B'', ''C'']"
  by (simp add: mapper_fields sample_content_def sample_template_def
        coords_of_def list_or_empty_def enumerate_eq_zip upt_rec Let_def)

text \<open>
  C5. With an empty icon pool every element that has a coordinate is still positioned
  (the outputs are the same prefixes of the content) and the icon of each is \<open>None\<close>.
  The mapper is a total function: there is no error value it could return.
\<close>

theorem C5_empty_pool_binds_null_icons:
  "(let out = map_icons_to_positions content template_data [];
        kps = list_or_empty (keyPoints content);
        sts = list_or_empty (statistics content);
        qts = list_or_empty (quotes content);
        kcs = coords_of (td_coordinates template_data) ''key_point'';
        scs = coords_of (td_coordinates template_data) ''statistic'';
        qcs = coords_of (td_coordinates template_data) ''quote''
    in map pt_text (pe_key_points out) = take (length kcs) kps
     \<and> map pt_icon (pe_key_points out) = replicate (min (length kps) (length kcs)) None
     \<and> map ps_data (pe_statistics out) = take (length scs) sts
     \<and> map ps_icon (pe_statistics out) = replicate (min (length sts) (length scs)) None
     \<and> map pt_text (pe_quotes out) = take (length qcs) qts
     \<and> map pt_icon (pe_quotes out) = replicate (min (length qts) (length qcs)) None)"
  unfolding Let_def mapper_fields
  by (intro conjI; rule nth_equalityI;
      simp add: mapped_simps min.commute find_best_icon_for_text_def)

text \<open>
  C6. The icon of a positioned statistic is selected against the statistic's label and
  value joined by one space; the icon of a positioned quote is selected against the
  literal \<open>quote\<close>, so all quotes of a layout carry the same icon whatever their text.
\<close>

theorem C6_statistic_and_quote_matching_text:
  "(let out = map_icons_to_positions content template_data icons;
        sts = list_or_empty (statistics content);
        qts = list_or_empty (quotes content);
        scs = coords_of (td_coordinates template_data) ''statistic'';
        qcs = coords_of (td_coordinates template_data) ''quote''
    in map ps_icon (pe_statistics out) =
         map (\<lambda>stat. find_best_icon_for_text
                 ((case stat_label stat of None \<Rightarrow> [] | Some l \<Rightarrow> l) @ '' '' @
                  (case stat_value stat of None \<Rightarrow> [] | Some v \<Rightarrow> v)) icons)
             (take (length scs) sts)
     \<and> map pt_icon (pe_quotes out) =
         replicate (min (length qts) (length qcs)) (find_best_icon_for_text ''quote'' icons))"
  unfolding Let_def mapper_fields
  by (intro conjI; rule nth_equalityI; simp add: mapped_simps min.commute stat_text_def)

section \<open>Per-element icon selection\<close>




text \<open>Lower-casing reaches the capitals beyond A to Z: the E with acute accent.\<close>

lemma lower_accented_capital: "lower (''caf'' @ [CHR 0xC9]) = ''caf'' @ [CHR 0xE9]"
  by code_simp

text \<open>
  The sum with the similarity score is rounded as a float addition is: a similarity score
  of \<open>2 ^ -60\<close> added to 2 gives 2, the two candidates tie and the first is selected.
\<close>

lemma rounding_tie:
  "map (spec_score ''Growth'') rounding_pool = [2, 2]"
  "find_best_icon_for_text ''Growth'' rounding_pool = Some (rounding_pool ! 0)"
  by code_simp+

text \<open>
  C10. For a non-empty pool the selection returns an icon; when no candidate has a
  positive score it is the first of the pool; and every positioned key point and
  statistic carries an icon.
\<close>

theorem C10_nonempty_pool_always_yields_icon:
  assumes "available_icons \<noteq> []"
  shows "(\<exists>ic. find_best_icon_for_text txt available_icons = Some ic)
       \<and> (\<not> list_ex (\<lambda>c. 0 < icon_score (lower txt) c) available_icons \<longrightarrow>
            find_best_icon_for_text txt available_icons = Some (hd available_icons))
       \<and> list_all (\<lambda>e. pt_icon e \<noteq> None)
            (pe_key_points (map_icons_to_positions content template_data available_icons))
       \<and> list_all (\<lambda>e. ps_icon e \<noteq> None)
            (pe_statistics (map_icons_to_positions content template_data available_icons))"
proof -
  have some: "\<exists>ic. find_best_icon_for_text t available_icons = Some ic" for t
    using find_best_member [OF assms, of t] by auto
  have kp: "list_all (\<lambda>e. pt_icon e \<noteq> None)
              (pe_key_points (map_icons_to_positions content template_data available_icons))"
    by (simp add: list_all_length mapper_fields mapped_simps some)
  have st: "list_all (\<lambda>e. ps_icon e \<noteq> None)
              (pe_statistics (map_icons_to_positions content template_data available_icons))"
    by (simp add: list_all_length mapper_fields mapped_simps some)
  from some [of "txt"] kp st find_best_no_positive [OF assms, of "txt"] show ?thesis
    by blast
qed

theorem C10_witness:
  "unmatched_pool \<noteq> []
   \<and> \<not> list_ex (\<lambda>c. 0 < icon_score (lower ''hello world'') c) unmatched_pool
   \<and> find_best_icon_for_text ''hello world'' unmatched_pool = Some (unmatched_pool ! 0)
   \<and> list_all (\<lambda>e. pt_icon e \<noteq> None)
        (pe_key_points (map_icons_to_positions sample_content sample_template unmatched_pool))
   \<and> length (pe_key_points
        (map_icons_to_positions sample_content sample_template unmatched_pool)) = 3"
proof -
  have ne: "unmatched_pool \<noteq> []"
    by (simp add: unmatched_pool_def)
  have no: "\<not> list_ex (\<lambda>c. 0 < icon_score (lower ''hello world'') c) unmatched_pool"
    by code_simp
  have hd: "hd unmatched_pool = unmatched_pool ! 0"
    by (simp add: unmatched_pool_def)
  have len: "length (pe_key_points
        (map_icons_to_positions sample_content sample_template unmatched_pool)) = 3"
    by (simp add: mapper_fields sample_content_def sample_template_def
        coords_of_def list_or_empty_def Let_def)
  from C10_nonempty_pool_always_yields_icon [OF ne, of "''hello world''" sample_content
      sample_template] ne no hd len
  show ?thesis by simp
qed


section \<open>Icon ranker\<close>

lemma fallback_length: "length (get_fallback_icons limit) = nat (min limit 6)"
  by (simp add: get_fallback_icons_def)

lemma fallback_shape:
  "list_all (\<lambda>ic. icon_category ic = Some ''general'' \<and> similarity_score ic = Some (1/2))
     (get_fallback_icons limit)"
  by (simp add: get_fallback_icons_def list_all_iff fallback_icon_def)

text \<open>
  C4, as the code has it. When the query to the index raises, the ranker returns the
  placeholder icons: \<open>min limit 6\<close> of them, so a non-empty list for a limit of one or
  more and at most \<open>limit\<close> of them for a limit that is not negative, each of category
  \<open>general\<close> with similarity score one half. When the service has no collection, and
  when the index answers with no ids, the ranker returns the empty list. The ranker is a
  total function: it has no error value to return.
\<close>

theorem C4_fallback_icons_when_query_raises:
  "(query content limit (where_filter cat) = Inl e \<longrightarrow>
      (let icons = find_relevant_icons (Some query) content cat limit
       in icons = get_fallback_icons limit
        \<and> length icons = nat (min limit 6)
        \<and> (1 \<le> limit \<longrightarrow> icons \<noteq> [])
        \<and> (0 \<le> limit \<longrightarrow> int (length icons) \<le> limit)
        \<and> list_all (\<lambda>ic. icon_category ic = Some ''general''
                          \<and> similarity_score ic = Some (1/2)) icons))
   \<and> find_relevant_icons None content cat limit = []
   \<and> (query content limit (where_filter cat) = Inr results \<and> qr_ids results = [] \<longrightarrow>
        find_relevant_icons (Some query) content cat limit = [])"
proof -
  have len: "length (get_fallback_icons limit) = nat (min limit 6)"
    by (rule fallback_length)
  have ne: "1 \<le> limit \<Longrightarrow> get_fallback_icons limit \<noteq> []"
    using len by (cases "get_fallback_icons limit") auto
  have le: "0 \<le> limit \<Longrightarrow> int (length (get_fallback_icons limit)) \<le> limit"
    using len by simp
  show ?thesis
    using ne le len fallback_shape [of limit]
    by (simp add: find_relevant_icons_def Let_def)
qed

theorem C4_witness:
  "failing_index ''business growth'' 5 (where_filter (Some ''business'')) = Inl QueryFailed
   \<and> length (find_relevant_icons (Some failing_index) ''business growth'' (Some ''business'') 5) = 5
   \<and> find_relevant_icons (Some failing_index) ''business growth'' (Some ''business'') 5 \<noteq> []
   \<and> list_all (\<lambda>ic. icon_category ic = Some ''general'' \<and> similarity_score ic = Some (1/2))
        (find_relevant_icons (Some failing_index) ''business growth'' (Some ''business'') 5)
   \<and> empty_index ''business growth'' 5 (where_filter (Some ''business''))
        = Inr \<lparr>qr_ids = [], qr_metadatas = None, qr_distances = None\<rparr>
   \<and> find_relevant_icons (Some empty_index) ''business growth'' (Some ''business'') 5 = []"
proof -
  have f: "failing_index ''business growth'' 5 (where_filter (Some ''business'')) = Inl QueryFailed"
    by (simp add: failing_index_def)
  have e: "empty_index ''business growth'' 5 (where_filter (Some ''business''))
        = Inr \<lparr>qr_ids = [], qr_metadatas = None, qr_distances = None\<rparr>"
    by (simp add: empty_index_def)
  from C4_fallback_icons_when_query_raises
         [where query = failing_index and content = "''business growth''" and limit = 5
            and cat = "Some ''business''" and e = QueryFailed]
       C4_fallback_icons_when_query_raises
         [where query = empty_index and content = "''business growth''" and limit = 5
            and cat = "Some ''business''"
            and results = "\<lparr>qr_ids = [], qr_metadatas = None, qr_distances = None\<rparr>"]
       f e
  show ?thesis unfolding Let_def by auto
qed

text \<open>
  C4 as stated fails: without a collection, and for an answer without ids, the ranker
  returns the empty list; so it does for a query that raises when the limit is zero.
\<close>

theorem C4_counterexample:
  "find_relevant_icons None ''business growth'' (Some ''business'') 5 = []
   \<and> find_relevant_icons (Some empty_index) ''business growth'' (Some ''business'') 5 = []
   \<and> find_relevant_icons (Some failing_index) ''business growth'' (Some ''business'') 0 = []"
  by (simp add: find_relevant_icons_def empty_index_def failing_index_def get_fallback_icons_def)

lemma row_values_length: "row_covers rows n \<Longrightarrow> length (row_values rows n dflt) = n"
  by (auto simp: row_covers_def row_values_def split: option.splits list.splits)

lemma row_item_covered:
  "row_covers rows n \<Longrightarrow> i < n \<Longrightarrow> row_item rows i dflt = Inr (row_values rows n dflt ! i)"
  by (auto simp: row_covers_def row_values_def row_item_def split: option.splits list.splits)

lemma row_item_short:
  "\<not> row_covers rows n \<Longrightarrow> \<exists>i<n. row_item rows i dflt = Inl IndexError"
proof -
  assume "\<not> row_covers rows n"
  then obtain row more where rows: "rows = Some (row # more)" and short: "length row < n"
    by (auto simp: row_covers_def split: option.splits list.splits)
  then have "row_item rows (length row) dflt = Inl IndexError"
    by (simp add: row_item_def)
  with short show ?thesis by blast
qed

lemma format_icon_covered:
  assumes "qr_ids results = ids # more_ids"
    and "row_covers (qr_metadatas results) n"
    and "row_covers (qr_distances results) n"
    and "i < n"
  shows "format_icon results i =
           Inr (shaped_icon (ids ! i)
                  (row_values (qr_metadatas results) n empty_metadata ! i)
                  (row_values (qr_distances results) n 0 ! i))"
  using assms
  by (simp add: format_icon_def row_item_covered shaped_icon_def Let_def)

lemma format_results_covered:
  assumes "qr_ids results = ids # more_ids"
    and "row_covers (qr_metadatas results) n"
    and "row_covers (qr_distances results) n"
    and "list_all (\<lambda>i. i < n) idxs"
  shows "format_results results idxs acc =
           Inr (acc @ map (\<lambda>i. shaped_icon (ids ! i)
                                  (row_values (qr_metadatas results) n empty_metadata ! i)
                                  (row_values (qr_distances results) n 0 ! i)) idxs)"
  using assms(4)
proof (induction idxs arbitrary: acc)
  case Nil
  show ?case by simp
next
  case (Cons i idxs)
  then have "format_icon results i =
               Inr (shaped_icon (ids ! i)
                      (row_values (qr_metadatas results) n empty_metadata ! i)
                      (row_values (qr_distances results) n 0 ! i))"
    using format_icon_covered [OF assms(1-3)] by simp
  with Cons show ?case by simp
qed

lemma format_results_raises:
  "list_ex (\<lambda>i. \<exists>e. format_icon results i = Inl e) idxs \<Longrightarrow>
   \<exists>e. format_results results idxs acc = Inl e"
proof (induction idxs arbitrary: acc)
  case Nil
  then show ?case by simp
next
  case (Cons i idxs)
  show ?case
  proof (cases "format_icon results i")
    case (Inl e)
    then show ?thesis by simp
  next
    case (Inr icon)
    with Cons.prems have "list_ex (\<lambda>i. \<exists>e. format_icon results i = Inl e) idxs"
      by simp
    from Cons.IH [OF this] Inr show ?thesis by simp
  qed
qed

lemma format_icon_short:
  assumes "\<not> (row_covers (qr_metadatas results) n \<and> row_covers (qr_distances results) n)"
  shows "\<exists>i<n. \<exists>e. format_icon results i = Inl e"
proof (cases "row_covers (qr_metadatas results) n")
  case False
  from row_item_short [OF this, of empty_metadata] obtain i where
    "i < n" "row_item (qr_metadatas results) i empty_metadata = Inl IndexError"
    by blast
  then show ?thesis
    by (auto simp: format_icon_def)
next
  case True
  with assms have "\<not> row_covers (qr_distances results) n" by simp
  from row_item_short [OF this, of 0] obtain i where
    "i < n" "row_item (qr_distances results) i 0 = Inl IndexError"
    by blast
  then show ?thesis
    by (auto simp: format_icon_def split: sum.splits)
qed

lemma ranker_covered:
  assumes "query content limit (where_filter cat) = Inr results"
    and "qr_ids results = ids # more_ids"
    and "row_covers (qr_metadatas results) (length ids)"
    and "row_covers (qr_distances results) (length ids)"
  shows "find_relevant_icons (Some query) content cat limit =
           map (\<lambda>i. shaped_icon (ids ! i)
                       (row_values (qr_metadatas results) (length ids) empty_metadata ! i)
                       (row_values (qr_distances results) (length ids) 0 ! i))
             [0..<length ids]"
proof -
  have "list_all (\<lambda>i. i < length ids) [0..<length ids]"
    by (simp add: list_all_iff)
  from format_results_covered [OF assms(2-4) this, of "[]"] assms(1,2)
  show ?thesis by (simp add: find_relevant_icons_def)
qed

lemma ranker_short:
  assumes "query content limit (where_filter cat) = Inr results"
    and "qr_ids results = ids # more_ids"
    and "\<not> (row_covers (qr_metadatas results) (length ids)
            \<and> row_covers (qr_distances results) (length ids))"
  shows "find_relevant_icons (Some query) content cat limit = get_fallback_icons limit"
proof -
  from format_icon_short [OF assms(3)]
  have "list_ex (\<lambda>i. \<exists>e. format_icon results i = Inl e) [0..<length ids]"
    by (auto simp: list_ex_iff)
  from format_results_raises [OF this, of "[]"] assms(1,2)
  show ?thesis by (auto simp: find_relevant_icons_def)
qed

text \<open>
  C9, as the code has it. The ranker is a function of the index's answer: two indexes
  that answer alike give the same output. It neither sorts nor breaks ties. For an answer
  with a row of ids: when the metadata and the distances are each absent (or empty) or
  have a first row at least as long as the row of ids, the output lists the ids in the
  order of the answer, each with the similarity score that the float subtraction of its
  distance from 1 gives (the distance being 0 when the distances are absent); when one of
  the two rows is shorter than the row of ids, reading it raises and the output is the
  list of placeholder icons.
\<close>

theorem C9_ranker_keeps_index_order:
  assumes "query content limit (where_filter cat) = Inr results"
    and "qr_ids results = ids # more_ids"
  shows "(row_covers (qr_metadatas results) (length ids)
          \<and> row_covers (qr_distances results) (length ids) \<longrightarrow>
            map icon_id_of (find_relevant_icons (Some query) content cat limit) = map Some ids
          \<and> map similarity_score (find_relevant_icons (Some query) content cat limit)
              = map (\<lambda>d. Some (float_sub 1 d))
                  (row_values (qr_distances results) (length ids) 0))
       \<and> (\<not> (row_covers (qr_metadatas results) (length ids)
               \<and> row_covers (qr_distances results) (length ids)) \<longrightarrow>
            find_relevant_icons (Some query) content cat limit = get_fallback_icons limit)
       \<and> (other_query content limit (where_filter cat) = Inr results \<longrightarrow>
            find_relevant_icons (Some other_query) content cat limit
              = find_relevant_icons (Some query) content cat limit)"
proof (intro conjI impI)
  assume cov: "row_covers (qr_metadatas results) (length ids)
          \<and> row_covers (qr_distances results) (length ids)"
  then have fr: "find_relevant_icons (Some query) content cat limit =
           map (\<lambda>i. shaped_icon (ids ! i)
                       (row_values (qr_metadatas results) (length ids) empty_metadata ! i)
                       (row_values (qr_distances results) (length ids) 0 ! i))
             [0..<length ids]"
    using ranker_covered [of query content limit cat results ids more_ids] assms by simp
  show "map icon_id_of (find_relevant_icons (Some query) content cat limit) = map Some ids"
    unfolding fr by (rule nth_equalityI) (simp_all add: icon_id_of_def shaped_icon_def)
  show "map similarity_score (find_relevant_icons (Some query) content cat limit)
              = map (\<lambda>d. Some (float_sub 1 d))
                  (row_values (qr_distances results) (length ids) 0)"
    unfolding fr using cov
    by (intro nth_equalityI) (simp_all add: shaped_icon_def row_values_length)
next
  assume "\<not> (row_covers (qr_metadatas results) (length ids)
               \<and> row_covers (qr_distances results) (length ids))"
  from ranker_short [of query content limit cat results ids more_ids] assms this
  show "find_relevant_icons (Some query) content cat limit = get_fallback_icons limit"
    by simp
next
  assume "other_query content limit (where_filter cat) = Inr results"
  with assms(1)
  show "find_relevant_icons (Some other_query) content cat limit
              = find_relevant_icons (Some query) content cat limit"
    by (simp add: find_relevant_icons_def)
qed

lemma tie_index_facts:
  "row_covers (Some [[tie_metadata ''B'', tie_metadata ''A'']]) (length [''b'', ''a''])"
  "row_covers (Some [[1/2, 1/2 :: rat]]) (length [''b'', ''a''])"
  "map (\<lambda>d. Some (float_sub 1 d)) (row_values (Some [[1/2, 1/2]]) (length [''b'', ''a'']) 0)
     = [Some (1/2), Some (1/2)]"
  "row_covers (None :: metadata list list option) (length [''b'', ''a''])"
  "row_covers (None :: rat list list option) (length [''b'', ''a''])"
  "map (\<lambda>d. Some (float_sub 1 d)) (row_values None (length [''b'', ''a'']) 0)
     = [Some 1, Some 1]"
  "\<not> row_covers (Some [[1/2 :: rat]]) (length [''b'', ''a''])"
  by code_simp+

theorem C9_witness:
  "map icon_id_of (find_relevant_icons (Some tie_index_ba) ''business growth'' (Some ''business'') 5)
     = [Some ''b'', Some ''a'']
   \<and> map similarity_score
        (find_relevant_icons (Some tie_index_ba) ''business growth'' (Some ''business'') 5)
     = [Some (1/2), Some (1/2)]
   \<and> map icon_id_of (find_relevant_icons (Some bare_index) ''business growth'' (Some ''business'') 5)
     = [Some ''b'', Some ''a'']
   \<and> map similarity_score
        (find_relevant_icons (Some bare_index) ''business growth'' (Some ''business'') 5)
     = [Some 1, Some 1]
   \<and> find_relevant_icons (Some short_row_index) ''business growth'' (Some ''business'') 5
     = get_fallback_icons 5"
  using
    C9_ranker_keeps_index_order
      [where query = tie_index_ba and other_query = tie_index_ba and content = "''business growth''" and limit = 5
         and cat = "Some ''business''" and ids = "[''b'', ''a'']" and more_ids = "[]"
         and results = "\<lparr>qr_ids = [[''b'', ''a'']],
            qr_metadatas = Some [[tie_metadata ''B'', tie_metadata ''A'']],
            qr_distances = Some [[1/2, 1/2]]\<rparr>"]
    C9_ranker_keeps_index_order
      [where query = bare_index and other_query = bare_index and content = "''business growth''" and limit = 5
         and cat = "Some ''business''" and ids = "[''b'', ''a'']" and more_ids = "[]"
         and results = "\<lparr>qr_ids = [[''b'', ''a'']], qr_metadatas = None,
            qr_distances = None\<rparr>"]
    C9_ranker_keeps_index_order
      [where query = short_row_index and other_query = short_row_index and content = "''business growth''" and limit = 5
         and cat = "Some ''business''" and ids = "[''b'', ''a'']" and more_ids = "[]"
         and results = "\<lparr>qr_ids = [[''b'', ''a'']],
            qr_metadatas = Some [[tie_metadata ''B'', tie_metadata ''A'']],
            qr_distances = Some [[1/2]]\<rparr>"]
    tie_index_facts
  by (simp add: tie_index_ba_def bare_index_def short_row_index_def)

text \<open>
  C9 as stated fails in its tie-break: two icons at the same distance come out in the
  order the index gave them, \<open>b\<close> before \<open>a\<close> for one index and \<open>a\<close> before \<open>b\<close> for the
  other, so no key of the icons decides the order of a tie.
\<close>

theorem C9_counterexample:
  "map icon_id_of (find_relevant_icons (Some tie_index_ba) ''business growth'' (Some ''business'') 5)
     = [Some ''b'', Some ''a'']
   \<and> map similarity_score
        (find_relevant_icons (Some tie_index_ba) ''business growth'' (Some ''business'') 5)
     = [Some (1/2), Some (1/2)]
   \<and> map icon_id_of (find_relevant_icons (Some tie_index_ab) ''business growth'' (Some ''business'') 5)
     = [Some ''a'', Some ''b'']
   \<and> map similarity_score
        (find_relevant_icons (Some tie_index_ab) ''business growth'' (Some ''business'') 5)
     = [Some (1/2), Some (1/2)]"
  by code_simp


section \<open>Template lookup and generation\<close>

lemma get_template_coordinates_unknown:
  "list_all (\<lambda>t. t_id t \<noteq> template_id) (case db of None \<Rightarrow> [] | Some d \<Rightarrow> templates d) \<Longrightarrow>
   get_template_coordinates db template_id = None"
proof (cases db)
  case None
  then show ?thesis by (simp add: get_template_coordinates_def)
next
  case (Some d)
  assume "list_all (\<lambda>t. t_id t \<noteq> template_id) (case db of None \<Rightarrow> [] | Some d \<Rightarrow> templates d)"
  with Some have "\<not> (\<exists>t. t \<in> set (templates d) \<and> t_id t = template_id)"
    by (auto simp: list_all_iff)
  then have "find (\<lambda>t. t_id t = template_id) (templates d) = None"
    by (simp add: find_None_iff)
  with Some show ?thesis by (simp add: get_template_coordinates_def)
qed

text \<open>
  C7. For a template id that the store does not hold (also when the store cannot be
  reached) the lookup returns the empty result and so does the generation; both are total
  functions, the exception handlers of the source being branches that return the empty
  result.
\<close>

theorem C7_unknown_template_gives_empty_result:
  assumes "list_all (\<lambda>t. t_id t \<noteq> template_id)
             (case db of None \<Rightarrow> [] | Some d \<Rightarrow> templates d)"
  shows "get_template_coordinates db template_id = None
       \<and> generate_infographic_data db collection content_analysis template_id = None"
  using get_template_coordinates_unknown [OF assms]
  by (simp add: generate_infographic_data_def)

theorem C7_witness:
  "list_all (\<lambda>t. t_id t \<noteq> ''no-such-template'')
     (case Some sample_database of None \<Rightarrow> [] | Some d \<Rightarrow> templates d)
   \<and> get_template_coordinates (Some sample_database) ''no-such-template'' = None
   \<and> generate_infographic_data (Some sample_database) None sample_content ''no-such-template''
       = None"
proof -
  have h: "list_all (\<lambda>t. t_id t \<noteq> ''no-such-template'')
     (case Some sample_database of None \<Rightarrow> [] | Some d \<Rightarrow> templates d)"
    by (simp add: sample_database_def)
  from C7_unknown_template_gives_empty_result [OF h, of None sample_content] h
  show ?thesis by simp
qed

text \<open>A template that the store holds is generated for.\<close>

lemma generate_known_template:
  "find (\<lambda>t. t_id t = template_id) (templates d) = Some template \<Longrightarrow>
   \<exists>data. generate_infographic_data (Some d) collection content_analysis template_id = Some data
      \<and> ig_template data = template \<and> ig_content data = content_analysis
      \<and> ig_dimensions data = (t_width template, t_height template)"
  by (simp add: generate_infographic_data_def get_template_coordinates_def Let_def)


section \<open>Content analysis\<close>

lemma pad_key_points_length: "length (pad_key_points kps) = max 5 (length kps)"
proof (induction kps rule: pad_key_points.induct)
  case (1 kps)
  show ?case
  proof (cases "length kps < 5")
    case True
    with "1" show ?thesis by (subst pad_key_points.simps) simp
  next
    case False
    then show ?thesis by (subst pad_key_points.simps) simp
  qed
qed

lemma pad_openai_points_length: "length (pad_openai_points kps) = max 5 (length kps)"
proof (induction kps rule: pad_openai_points.induct)
  case (1 kps)
  show ?case
  proof (cases "length kps < 5")
    case True
    with "1" show ?thesis by (subst pad_openai_points.simps) simp
  next
    case False
    then show ?thesis by (subst pad_openai_points.simps) simp
  qed
qed

lemma located_statistics_Cons:
  "located_statistics (s # ss) =
     (case percent_search s of
        None \<Rightarrow> located_statistics ss
      | Some digits \<Rightarrow> sentence_statistic s (digits_value digits) # located_statistics ss)"
  by (simp add: located_statistics_def map_filter_simps split: option.splits)

lemma located_statistics_Nil: "located_statistics [] = []"
  by (simp add: located_statistics_def map_filter_simps)

lemma process_sentence_skips:
  "length (strip raw) < 10 \<Longrightarrow> process_sentence (kps, sts, qs) raw = Inr (kps, sts, qs)"
  by (simp add: process_sentence_def Let_def)

lemma process_sentence_plain:
  "\<not> length (strip raw) < 10 \<Longrightarrow> percent_search (strip raw) = None \<Longrightarrow>
   \<exists>kps' qs'. process_sentence (kps, sts, qs) raw = Inr (kps', sts, qs')"
  by (simp add: process_sentence_def Let_def)

lemma process_sentence_located:
  "\<not> length (strip raw) < 10 \<Longrightarrow> percent_search (strip raw) = Some digits \<Longrightarrow>
   length digits \<le> max_str_digits \<Longrightarrow>
   \<exists>kps' qs'. process_sentence (kps, sts, qs) raw =
      Inr (kps', sts @ [sentence_statistic (strip raw) (digits_value digits)], qs')"
  by (simp add: process_sentence_def int_of_digits_def Let_def)

lemma process_sentence_raises:
  "\<not> length (strip raw) < 10 \<Longrightarrow> percent_search (strip raw) = Some digits \<Longrightarrow>
   max_str_digits < length digits \<Longrightarrow>
   process_sentence (kps, sts, qs) raw = Inl ValueError"
  by (simp add: process_sentence_def int_of_digits_def Let_def)

lemma process_sentences_statistics:
  "list_all (\<lambda>digits. length digits \<le> max_str_digits)
     (List.map_filter percent_search (filter (\<lambda>s. \<not> length s < 10) (map strip raws))) \<Longrightarrow>
   \<exists>kps' qs'. process_sentences (kps, sts, qs) raws =
      Inr (kps', sts @ located_statistics (filter (\<lambda>s. \<not> length s < 10) (map strip raws)), qs')"
proof (induction raws arbitrary: kps sts qs)
  case Nil
  show ?case by (simp add: located_statistics_Nil)
next
  case (Cons raw raws)
  show ?case
  proof (cases "length (strip raw) < 10")
    case True
    with Cons.prems have "list_all (\<lambda>digits. length digits \<le> max_str_digits)
       (List.map_filter percent_search (filter (\<lambda>s. \<not> length s < 10) (map strip raws)))"
      by simp
    from Cons.IH [OF this, of kps sts qs] True show ?thesis
      by (simp add: process_sentence_skips)
  next
    case long: False
    show ?thesis
    proof (cases "percent_search (strip raw)")
      case None
      with long Cons.prems have rest: "list_all (\<lambda>digits. length digits \<le> max_str_digits)
         (List.map_filter percent_search (filter (\<lambda>s. \<not> length s < 10) (map strip raws)))"
        by (simp add: map_filter_simps)
      from process_sentence_plain [OF long None, of kps sts qs] obtain kps1 qs1 where
        "process_sentence (kps, sts, qs) raw = Inr (kps1, sts, qs1)"
        by blast
      with Cons.IH [OF rest, of kps1 sts qs1] long None show ?thesis
        by (simp add: located_statistics_Cons)
    next
      case (Some digits)
      with long Cons.prems have short: "length digits \<le> max_str_digits"
        and rest: "list_all (\<lambda>digits. length digits \<le> max_str_digits)
         (List.map_filter percent_search (filter (\<lambda>s. \<not> length s < 10) (map strip raws)))"
        by (simp_all add: map_filter_simps)
      from process_sentence_located [OF long Some short, of kps sts qs] obtain kps1 qs1 where
        "process_sentence (kps, sts, qs) raw =
           Inr (kps1, sts @ [sentence_statistic (strip raw) (digits_value digits)], qs1)"
        by blast
      with Cons.IH [OF rest, of kps1 "sts @ [sentence_statistic (strip raw) (digits_value digits)]" qs1]
        long Some
      show ?thesis
        by (simp add: located_statistics_Cons)
    qed
  qed
qed

lemma basic_analysis_shape:
  assumes "list_all (\<lambda>digits. length digits \<le> max_str_digits) (located_digits t)"
  shows "\<exists>r kps qs. analyze_basic_content t = Inr r
      \<and> keyPoints r = Some kps \<and> 5 \<le> length kps \<and> length kps \<le> 6
      \<and> statistics r =
          Some (take 4 (if located_statistics (examined_sentences t) = []
                        then default_statistics (length (split_ws t)) kps
                        else located_statistics (examined_sentences t)))
      \<and> quotes r = Some qs \<and> length qs \<le> 2
      \<and> category r = Some ''business''"
proof -
  let ?sentences = "split_on (CHR ''.'') t"
  from assms obtain kps0 qs0 where run:
    "process_sentences ([], [], []) (take 30 ?sentences) =
       Inr (kps0, located_statistics (examined_sentences t), qs0)"
    using process_sentences_statistics [of "take 30 ?sentences" "[]" "[]" "[]"]
    by (auto simp: located_digits_def examined_sentences_def)
  define kps1 where "kps1 =
    (if kps0 = []
     then take 6 (filter (\<lambda>s. length s > 15 \<and> length s \<le> 120)
                    (map strip (take 7 (drop 1 ?sentences))))
     else kps0)"
  define kps where "kps =
    (if length (pad_key_points kps1) > 6 then take 6 (pad_key_points kps1)
     else pad_key_points kps1)"
  define title where "title =
    (case filter (\<lambda>s. length s > 10) (map strip (take 5 ?sentences)) of
       [] \<Rightarrow> ''Video Content Summary''
     | s # _ \<Rightarrow> take 80 s)"
  have result: "analyze_basic_content t =
     Inr \<lparr>mainTitle = Some title,
          keyPoints = Some kps,
          statistics = Some (take 4 (if located_statistics (examined_sentences t) = []
                                     then default_statistics (length (split_ws t)) kps
                                     else located_statistics (examined_sentences t))),
          quotes = Some (take 2 qs0),
          category = Some ''business'',
          summary = Some (''Analysis of video content covering '' @ str_nat (length kps)
                          @ '' main topics''),
          wordCount = Some (length (split_ws t)),
          transcriptLength = Some (length t)\<rparr>"
    unfolding analyze_basic_content_def Let_def run kps_def kps1_def title_def
    by (simp only: sum.case prod.case)
  have bounds: "5 \<le> length kps" "length kps \<le> 6"
    by (auto simp: kps_def pad_key_points_length)
  from result bounds show ?thesis
    by simp
qed

lemma located_statistics_percentages:
  "map stat_percentage (located_statistics ss) =
     map (\<lambda>digits. Some (min (int (digits_value digits)) 100)) (List.map_filter percent_search ss)"
  by (induction ss)
     (simp_all add: located_statistics_Nil located_statistics_Cons map_filter_simps
        sentence_statistic_def split: option.splits)

lemma located_empty_iff:
  "located_statistics (examined_sentences t) = [] \<longleftrightarrow> located_percentages t = []"
proof -
  have "length (located_statistics (examined_sentences t)) = length (located_percentages t)"
    using arg_cong [OF located_statistics_percentages [of "examined_sentences t"], of length]
    by (simp add: located_percentages_def located_digits_def)
  then show ?thesis by (metis length_0_conv)
qed

lemma located_take_percentages:
  "map stat_percentage (take 4 (located_statistics (examined_sentences t))) =
     map (\<lambda>n. Some (min (int n) 100)) (take 4 (located_percentages t))"
proof -
  have "map stat_percentage (take 4 (located_statistics (examined_sentences t))) =
          take 4 (map stat_percentage (located_statistics (examined_sentences t)))"
    by (simp add: take_map)
  also have "\<dots> = take 4 (map (\<lambda>n. Some (min (int n) 100)) (located_percentages t))"
    by (simp add: located_statistics_percentages located_percentages_def located_digits_def o_def)
  also have "\<dots> = map (\<lambda>n. Some (min (int n) 100)) (take 4 (located_percentages t))"
    by (simp add: take_map)
  finally show ?thesis .
qed

lemma openai_shape:
  assumes "analyze_with_openai ask t = Inr r"
  shows "(\<exists>kps. keyPoints r = Some kps \<and> 5 \<le> length kps \<and> length kps \<le> 6)
       \<and> (\<exists>draft. ask (if length t > 12000 then take 12000 t @ ''...'' else t) = Inr draft
             \<and> statistics r = statistics draft \<and> quotes r = quotes draft
             \<and> category r = category draft)"
  using assms
  by (auto simp: analyze_with_openai_def Let_def pad_openai_points_length
      split: sum.splits option.splits if_splits)

lemma openai_returns:
  assumes "ask (if length t > 12000 then take 12000 t @ ''...'' else t) = Inr draft"
    and "keyPoints draft = Some kps"
  shows "\<exists>r. analyze_with_openai ask t = Inr r"
  using assms by (simp add: analyze_with_openai_def Let_def)

text \<open>
  The basic analysis raises for a text whose located percentage has more digits than the
  interpreter converts.
\<close>

lemma split_on_no_separator: "d \<notin> set s \<Longrightarrow> split_on d s = [s]"
  by (induction s) auto

lemma strip_unchanged:
  assumes "s \<noteq> []" and "\<not> is_space (hd s)" and "\<not> is_space (last s)"
  shows "strip s = s"
proof -
  from assms(1,2) have front: "dropWhile is_space s = s"
    by (cases s) auto
  from assms(1,3) have "dropWhile is_space (rev s) = rev s"
    by (cases "rev s") (auto simp: last_rev [symmetric] hd_rev)
  with front show ?thesis by (simp add: strip_def)
qed

lemma percent_search_skip:
  "list_all (\<lambda>c. \<not> is_digit c) p \<Longrightarrow> percent_search (p @ s) = percent_search s"
  by (induction p) (auto simp: percent_match_at_def)

lemma percent_search_digits:
  assumes "ds \<noteq> []" and "list_all is_digit ds"
  shows "percent_search (ds @ ''% seen'') = Some ds"
proof -
  from assms(2) have tw: "takeWhile is_digit (ds @ ''% seen'') = ds"
    and dw: "dropWhile is_digit (ds @ ''% seen'') = ''% seen''"
    by (simp_all add: list_all_iff takeWhile_append2 dropWhile_append2 is_digit_def)
  from assms(1) tw dw have "percent_match_at (ds @ ''% seen'') = Some ds"
    by (simp add: percent_match_at_def)
  with assms(1) show ?thesis
    by (cases ds) simp_all
qed

lemma long_percentage_raises: "analyze_basic_content long_percentage_text = Inl ValueError"
proof -
  let ?ds = "replicate 4301 (CHR ''9'')"
  have sentences: "split_on (CHR ''.'') long_percentage_text = [long_percentage_text]"
    by (rule split_on_no_separator) (simp add: long_percentage_text_def)
  have stripped: "strip long_percentage_text = long_percentage_text"
    by (rule strip_unchanged) (simp_all add: long_percentage_text_def is_space_def)
  have long: "\<not> length (strip long_percentage_text) < 10"
    by (simp add: stripped) (simp add: long_percentage_text_def)
  have "percent_search (?ds @ ''% seen'') = Some ?ds"
    by (rule percent_search_digits) (simp_all add: list_all_iff is_digit_def)
  then have "percent_search long_percentage_text = Some ?ds"
    unfolding long_percentage_text_def
    by (subst percent_search_skip) (simp_all add: is_digit_def)
  then have found: "percent_search (strip long_percentage_text) = Some ?ds"
    by (simp add: stripped)
  have "process_sentence ([], [], []) long_percentage_text = Inl ValueError"
    by (rule process_sentence_raises [OF long found]) (simp add: max_str_digits_def)
  then show ?thesis
    by (simp add: analyze_basic_content_def sentences Let_def)
qed

text \<open>
  C3, as the code has it. For a text none of whose located percentages has more than
  4300 digits, the basic analysis returns, with five to six key points, at most four
  statistics, at most two quotes and the category \<open>business\<close>. The language-model path
  returns whenever the model's answer is a dict with key points; what it returns has five
  to six key points, and the statistics, the quotes and the category of the model's answer
  unchanged: they are neither cut nor normalized. Whichever path
  \<open>analyze_transcript_content\<close> takes for such a text, it returns a result with five to six
  key points.
\<close>

theorem C3_cardinalities_on_both_paths:
  assumes "list_all (\<lambda>digits. length digits \<le> max_str_digits) (located_digits t)"
  shows "(\<exists>r kps sts qs. analyze_basic_content t = Inr r
            \<and> keyPoints r = Some kps \<and> 5 \<le> length kps \<and> length kps \<le> 6
            \<and> statistics r = Some sts \<and> length sts \<le> 4
            \<and> quotes r = Some qs \<and> length qs \<le> 2
            \<and> category r = Some ''business'' \<and> ''business'' \<in> set vocabulary)
       \<and> (analyze_with_openai ask t = Inr lm \<longrightarrow>
            (\<exists>kps. keyPoints lm = Some kps \<and> 5 \<le> length kps \<and> length kps \<le> 6)
            \<and> (\<exists>draft. ask (if length t > 12000 then take 12000 t @ ''...'' else t) = Inr draft
                  \<and> statistics lm = statistics draft \<and> quotes lm = quotes draft
                  \<and> category lm = category draft))
       \<and> (ask (if length t > 12000 then take 12000 t @ ''...'' else t) = Inr answer
            \<and> keyPoints answer \<noteq> None \<longrightarrow>
            (\<exists>r. analyze_with_openai ask t = Inr r))
       \<and> (\<exists>r kps. analyze_transcript_content openai_client t = Inr r
            \<and> keyPoints r = Some kps \<and> 5 \<le> length kps \<and> length kps \<le> 6)"
proof -
  from basic_analysis_shape [OF assms] obtain r kps qs where basic:
    "analyze_basic_content t = Inr r" "keyPoints r = Some kps" "5 \<le> length kps"
    "length kps \<le> 6"
    "statistics r =
       Some (take 4 (if located_statistics (examined_sentences t) = []
                     then default_statistics (length (split_ws t)) kps
                     else located_statistics (examined_sentences t)))"
    "quotes r = Some qs" "length qs \<le> 2" "category r = Some ''business''"
    by blast
  have first: "\<exists>r kps sts qs. analyze_basic_content t = Inr r
            \<and> keyPoints r = Some kps \<and> 5 \<le> length kps \<and> length kps \<le> 6
            \<and> statistics r = Some sts \<and> length sts \<le> 4
            \<and> quotes r = Some qs \<and> length qs \<le> 2
            \<and> category r = Some ''business'' \<and> ''business'' \<in> set vocabulary"
    using basic by (simp add: vocabulary_def)
  have last: "\<exists>r kps. analyze_transcript_content openai_client t = Inr r
            \<and> keyPoints r = Some kps \<and> 5 \<le> length kps \<and> length kps \<le> 6"
  proof (cases openai_client)
    case None
    with basic show ?thesis by (simp add: analyze_transcript_content_def)
  next
    case (Some ask')
    show ?thesis
    proof (cases "analyze_with_openai ask' t")
      case (Inl e)
      with Some basic show ?thesis by (simp add: analyze_transcript_content_def)
    next
      case (Inr r')
      with Some openai_shape [OF Inr] show ?thesis
        by (auto simp: analyze_transcript_content_def)
    qed
  qed
  have returns: "ask (if length t > 12000 then take 12000 t @ ''...'' else t) = Inr answer
            \<and> keyPoints answer \<noteq> None \<longrightarrow> (\<exists>r. analyze_with_openai ask t = Inr r)"
    using openai_returns [of ask t answer] by auto
  from first last returns openai_shape [of ask t lm] show ?thesis
    by blast
qed

lemma sports_run: "analyze_with_openai sports_model ''Some transcript'' = Inr sports_result"
  by code_simp

lemma plain_transcript_located: "located_digits ''Some transcript'' = []"
  by code_simp

theorem C3_witness:
  "list_all (\<lambda>digits. length digits \<le> max_str_digits) (located_digits ''Some transcript'')
   \<and> analyze_with_openai sports_model ''Some transcript'' = Inr sports_result
   \<and> (\<exists>kps. keyPoints sports_result = Some kps \<and> 5 \<le> length kps \<and> length kps \<le> 6)
   \<and> statistics sports_result = statistics sports_draft
   \<and> quotes sports_result = quotes sports_draft
   \<and> category sports_result = category sports_draft
   \<and> (\<exists>r kps sts qs. analyze_basic_content ''Some transcript'' = Inr r
        \<and> keyPoints r = Some kps \<and> 5 \<le> length kps \<and> length kps \<le> 6
        \<and> statistics r = Some sts \<and> length sts \<le> 4
        \<and> quotes r = Some qs \<and> length qs \<le> 2
        \<and> category r = Some ''business'')"
proof -
  have h: "list_all (\<lambda>digits. length digits \<le> max_str_digits)
             (located_digits ''Some transcript'')"
    by (simp add: plain_transcript_located)
  from C3_cardinalities_on_both_paths
         [OF h, where ask = sports_model and lm = sports_result and answer = sports_draft
            and openai_client = "Some sports_model"]
       sports_run h
  show ?thesis by (auto simp: sports_model_def)
qed

text \<open>
  C3 as stated fails on the language-model path: a draft of five statistics, three quotes
  and the category \<open>sports\<close> is returned with all five statistics, all three quotes and
  that category, which is not in the vocabulary.
\<close>

theorem C3_counterexample:
  "analyze_with_openai sports_model ''Some transcript'' = Inr sports_result
   \<and> analyze_transcript_content (Some sports_model) ''Some transcript'' = Inr sports_result
   \<and> category sports_result = Some ''sports''
   \<and> ''sports'' \<notin> set vocabulary
   \<and> length (list_or_empty (statistics sports_result)) = 5
   \<and> length (list_or_empty (quotes sports_result)) = 3"
  by code_simp

text \<open>
  C8, as the code has it. For a text none of whose located percentages has more than
  4300 digits, the basic analysis returns, and every statistic it returns has a percentage
  between 0 and 100. When the examined sentences hold a percentage match, the percentages
  are those of the first four matches, each cut to 100; when they hold none, two default
  statistics are returned whose percentages are the word count divided by twenty (cut to
  100) and fifteen times the number of key points.
\<close>

theorem C8_percentages_clamped_and_located_or_default:
  assumes "list_all (\<lambda>digits. length digits \<le> max_str_digits) (located_digits t)"
  shows "\<exists>r. analyze_basic_content t = Inr r
     \<and> (let sts = list_or_empty (statistics r);
             kps = list_or_empty (keyPoints r);
             located = located_percentages t
         in list_all (\<lambda>p. case p of None \<Rightarrow> False | Some v \<Rightarrow> 0 \<le> v \<and> v \<le> 100)
              (map stat_percentage sts)
          \<and> map stat_percentage sts =
              (if located = []
               then [Some (min (int (length (split_ws t)) div 20) 100),
                     Some (int (length kps) * 15)]
               else map (\<lambda>n. Some (min (int n) 100)) (take 4 located)))"
proof -
  from basic_analysis_shape [OF assms] obtain r kps where basic:
    "analyze_basic_content t = Inr r" "keyPoints r = Some kps" "5 \<le> length kps"
    "length kps \<le> 6"
    "statistics r =
       Some (take 4 (if located_statistics (examined_sentences t) = []
                     then default_statistics (length (split_ws t)) kps
                     else located_statistics (examined_sentences t)))"
    by blast
  have pct: "map stat_percentage (list_or_empty (statistics r)) =
              (if located_percentages t = []
               then [Some (min (int (length (split_ws t)) div 20) 100),
                     Some (int (length kps) * 15)]
               else map (\<lambda>n. Some (min (int n) 100)) (take 4 (located_percentages t)))"
  proof (cases "located_percentages t = []")
    case True
    then have "located_statistics (examined_sentences t) = []"
      by (simp add: located_empty_iff)
    with True basic(5) show ?thesis
      by (simp add: list_or_empty_def default_statistics_def)
  next
    case False
    then have "located_statistics (examined_sentences t) \<noteq> []"
      by (simp add: located_empty_iff)
    with False basic(5) show ?thesis
      by (simp add: list_or_empty_def located_take_percentages)
  qed
  have bound: "list_all (\<lambda>p. case p of None \<Rightarrow> False | Some v \<Rightarrow> 0 \<le> v \<and> v \<le> 100)
         (map stat_percentage (list_or_empty (statistics r)))"
    unfolding pct using basic(3,4)
    by (simp add: list_all_iff pos_imp_zdiv_nonneg_iff)
  from basic(1,2) pct bound show ?thesis
    by (simp add: Let_def list_or_empty_def)
qed

lemma percent_text_located:
  "list_all (\<lambda>digits. length digits \<le> max_str_digits)
     (located_digits ''Sales rose 150 percent overall. Costs fell 7% in May'')"
  "located_percentages ''Sales rose 150 percent overall. Costs fell 7% in May'' = [150, 7]"
  by code_simp+

theorem C8_witness:
  "list_all (\<lambda>digits. length digits \<le> max_str_digits)
     (located_digits ''Sales rose 150 percent overall. Costs fell 7% in May'')
   \<and> (\<exists>r. analyze_basic_content ''Sales rose 150 percent overall. Costs fell 7% in May'' = Inr r
        \<and> map stat_percentage (list_or_empty (statistics r)) = [Some 100, Some 7])"
  using C8_percentages_clamped_and_located_or_default [OF percent_text_located(1)]
    percent_text_located
  by (auto simp: Let_def)

text \<open>A no-break space between the number and the word is whitespace to the pattern.\<close>

lemma no_break_space_located:
  "located_percentages (''Sales rose 50'' @ [CHR 0xA0] @ ''percent today'') = [50]"
  by code_simp

text \<open>
  C8 as stated fails for a text without a percentage: \<open>Hello world\<close> yields statistics
  with the percentages 0 and 75.
\<close>

theorem C8_counterexample:
  "located_percentages ''Hello world'' = []
   \<and> map_sum id (\<lambda>r. map stat_percentage (list_or_empty (statistics r)))
        (analyze_basic_content ''Hello world'') = Inr [Some 0, Some 75]"
  by code_simp

end
